theory Spec2Isabelle
  imports Main
begin

section \<open>JEL: a shallow embedding of the expression and ordering compilers\<close>

text \<open>
  The repository holds two generations of the package side by side.
  \<^item> \<^verbatim>\<open>jel.go\<close> and \<^verbatim>\<open>jel_internal.go\<close>: \<^verbatim>\<open>Expr\<close> keeps the input text and
    compiles it in \<^verbatim>\<open>AppendExpr\<close>; failures are panics carrying an error value.
  \<^item> \<^verbatim>\<open>unnamed/part_000\<close>, \<^verbatim>\<open>utils.go\<close> and \<^verbatim>\<open>ord.go\<close>: \<^verbatim>\<open>Expr\<close> embeds a
    \<^verbatim>\<open>sqlb.Query\<close> and compiles while unmarshalling; failures are returned errors.
    The definitions of this generation carry the suffix \<open>_p0\<close> where the name would
    clash with the first generation.
  Byte slices and Go strings are \<^typ>\<open>string\<close> (lists of bytes).
\<close>

subsection \<open>Errors and panic values\<close>

text \<open>One constructor per error site of the source (the \<^verbatim>\<open>fmt.Errorf\<close> calls), with
  the context the message prints; \<open>ErrJson\<close> and \<open>ErrTraverse\<close> are the errors
  of the libraries \<^verbatim>\<open>encoding/json\<close> and \<^verbatim>\<open>refut\<close>.\<close>

datatype error =
    ErrUnexpectedDict
  | ErrUnmarshalList string
  | ErrEmptyList
  | ErrHeadNotString
  | ErrUnmarshalHead string
  | ErrPrefixArity string nat
  | ErrPostfixArity string nat
  | ErrInfixArity string nat
  | ErrOpArity string nat nat
  | ErrCastArity string nat
  | ErrInvalidPath string
  | ErrNoTypePath string
  | ErrNoTypeField string
  | ErrNoField string
  | ErrNoColumn string string
  | ErrQuoteInIdent string
  | ErrInvalidOrd string
  | ErrJson string
  | ErrTraverse string

text \<open>The value given to \<^verbatim>\<open>panic\<close>: an \<^verbatim>\<open>error\<close>, or anything else.\<close>

datatype pval = PError error | POther string


subsection \<open>Identifiers\<close>

text \<open>\<^verbatim>\<open>strings.Contains(str, `"`)\<close>.\<close>

definition hasQuote :: "string \<Rightarrow> bool" where
  "hasQuote str = (CHR 0x22 \<in> set str)"

text \<open>An identifier between double quotes.\<close>

definition quoted :: "string \<Rightarrow> string" where
  "quoted s = [CHR 0x22] @ s @ [CHR 0x22]"

subsection \<open>utils.go: appending to a buffer\<close>

definition appendStr :: "string \<Rightarrow> string \<Rightarrow> string" where
  "appendStr buf str = buf @ str"

definition appendEnclosed :: "string \<Rightarrow> string \<Rightarrow> string \<Rightarrow> string \<Rightarrow> string" where
  "appendEnclosed buf prefix infix_str suffix = ((buf @ prefix) @ infix_str) @ suffix"

text \<open>\<^verbatim>\<open>appendSqlPath\<close>: the loop \<^verbatim>\<open>for i, str := range path\<close>, with \<open>n = len(path)\<close>.
  The buffer is written through a pointer, so what was appended before a panic stays
  in it: the result is the buffer and the panic value, if any.\<close>

fun appendSqlPath_loop :: "string \<Rightarrow> nat \<Rightarrow> nat \<Rightarrow> string list \<Rightarrow> string \<times> pval option" where
  "appendSqlPath_loop buf n i [] = (buf, None)"
| "appendSqlPath_loop buf n i (str # rest) =
     (if hasQuote str then (buf, Some (PError (ErrQuoteInIdent str)))
      else appendSqlPath_loop
        (if i = 0 then
           (if n > 1 then appendEnclosed buf [CHR ''('', CHR 0x22] str [CHR 0x22, CHR '')'']
            else appendEnclosed buf [CHR 0x22] str [CHR 0x22])
         else appendEnclosed (appendStr buf ''.'') [CHR 0x22] str [CHR 0x22])
        n (Suc i) rest)"

definition appendSqlPath :: "string \<Rightarrow> string list \<Rightarrow> string \<times> pval option" where
  "appendSqlPath buf path = appendSqlPath_loop buf (length path) 0 path"

subsection \<open>JSON text\<close>

text \<open>
  Modelled from the spec: the JSON tokenizer (\<^verbatim>\<open>encoding/json\<close>) is not part of the
  sources; the spec (section 6) gives its input as a JSON value: object, array, string
  or scalar. A syntactically valid JSON value is kept as its tree; a string holds its
  decoded content, a number its literal.
\<close>

datatype json =
    JDict "(string \<times> json) list"
  | JList "json list"
  | JString string
  | JNumber string
  | JBool bool
  | JNull

text \<open>
  A byte slice handed to the decoder (\<^verbatim>\<open>[]byte\<close>, \<^verbatim>\<open>json.RawMessage\<close>, the text kept in
  \<^verbatim>\<open>Expr.Text\<close>): \<open>Invalid s\<close> is the bytes \<open>s\<close> when they are not valid JSON (the empty
  text is \<open>Invalid []\<close>), \<open>Valid j\<close> is any text of the JSON value \<open>j\<close>.
\<close>

datatype jtext = Invalid string | Valid json

text \<open>\<^verbatim>\<open>bytes.TrimSpace\<close>: white space is what \<^verbatim>\<open>unicode.IsSpace\<close> accepts, here in UTF-8.
  Only the leading end matters for the first byte of what is left.\<close>

definition space_runes :: "string list" where
  "space_runes =
     [[CHR 0x09], [CHR 0x0A], [CHR 0x0B], [CHR 0x0C], [CHR 0x0D], [CHR 0x20],
      [CHR 0xC2, CHR 0x85], [CHR 0xC2, CHR 0xA0], [CHR 0xE1, CHR 0x9A, CHR 0x80],
      [CHR 0xE2, CHR 0x80, CHR 0x80], [CHR 0xE2, CHR 0x80, CHR 0x81], [CHR 0xE2, CHR 0x80, CHR 0x82],
      [CHR 0xE2, CHR 0x80, CHR 0x83], [CHR 0xE2, CHR 0x80, CHR 0x84], [CHR 0xE2, CHR 0x80, CHR 0x85],
      [CHR 0xE2, CHR 0x80, CHR 0x86], [CHR 0xE2, CHR 0x80, CHR 0x87], [CHR 0xE2, CHR 0x80, CHR 0x88],
      [CHR 0xE2, CHR 0x80, CHR 0x89], [CHR 0xE2, CHR 0x80, CHR 0x8A], [CHR 0xE2, CHR 0x80, CHR 0xA8],
      [CHR 0xE2, CHR 0x80, CHR 0xA9], [CHR 0xE2, CHR 0x80, CHR 0xAF], [CHR 0xE2, CHR 0x81, CHR 0x9F],
      [CHR 0xE3, CHR 0x80, CHR 0x80]]"

definition space_rune_len :: "string \<Rightarrow> nat" where
  "space_rune_len s =
     (case find (\<lambda>p. take (length p) s = p) space_runes of
        Some p \<Rightarrow> length p
      | None \<Rightarrow> 0)"

lemma space_rune_len_le: "space_rune_len s \<le> length s"
proof (cases "find (\<lambda>p. take (length p) s = p) space_runes")
  case None
  then show ?thesis by (simp add: space_rune_len_def)
next
  case (Some p)
  then have "take (length p) s = p" by (auto simp: find_Some_iff)
  then have "length p \<le> length s" by (metis length_take min.cobounded1)
  with Some show ?thesis by (simp add: space_rune_len_def)
qed

function TrimSpace_left :: "string \<Rightarrow> string" where
  "TrimSpace_left s = (if space_rune_len s = 0 then s else TrimSpace_left (drop (space_rune_len s) s))"
  by pat_completeness auto
termination
proof (relation "measure length")
  show "wf (measure length)" by simp
next
  fix s :: string
  assume "space_rune_len s \<noteq> 0"
  with space_rune_len_le [of s] show "(drop (space_rune_len s) s, s) \<in> measure length"
    by (cases s) auto
qed

declare TrimSpace_left.simps [simp del]

text \<open>\<^verbatim>\<open>firstMeaningfulByte\<close>: the first byte after trimming, 0 when nothing is left. The
  text of a valid value starts with the byte that its kind fixes; a number literal starts
  with a digit or a minus sign.\<close>

definition firstMeaningfulByte :: "jtext \<Rightarrow> char" where
  "firstMeaningfulByte val =
     (case val of
        Invalid s \<Rightarrow> (case TrimSpace_left s of [] \<Rightarrow> CHR 0x00 | c # _ \<Rightarrow> c)
      | Valid (JDict _) \<Rightarrow> CHR ''{''
      | Valid (JList _) \<Rightarrow> CHR ''[''
      | Valid (JString _) \<Rightarrow> CHR 0x22
      | Valid (JNumber lit) \<Rightarrow> (case lit of [] \<Rightarrow> CHR ''0'' | c # _ \<Rightarrow> c)
      | Valid (JBool b) \<Rightarrow> (if b then CHR ''t'' else CHR ''f'')
      | Valid JNull \<Rightarrow> CHR ''n'')"

definition isJsonDict :: "jtext \<Rightarrow> bool" where
  "isJsonDict val = (firstMeaningfulByte val = CHR ''{'')"

definition isJsonList :: "jtext \<Rightarrow> bool" where
  "isJsonList val = (firstMeaningfulByte val = CHR ''['')"

definition isJsonString :: "jtext \<Rightarrow> bool" where
  "isJsonString val = (firstMeaningfulByte val = CHR 0x22)"

subsection \<open>The schema: struct types and field resolution\<close>

text \<open>
  Modelled from the spec: \<^verbatim>\<open>reflect.Type\<close> and the packages \<^verbatim>\<open>refut\<close> and \<^verbatim>\<open>sqlb\<close>
  that read struct tags are not part of the sources. The spec (sections 3 and 4.2) has a
  record descriptor instead, whose fields carry a public name (the \<^verbatim>\<open>json\<close> tag), a
  storage name (the \<^verbatim>\<open>db\<close> tag), a type and whether the field is embedded.
\<close>

datatype rtype = Struct "sfield list" | Ptr rtype | Slice rtype | Basic string
and sfield = StructField (JsonName: string) (DbName: string) (Anonymous: bool) (Type: rtype)

text \<open>
  Modelled from the spec: \<^verbatim>\<open>refut.TraverseStructRtype\<close> is not part of the sources; the
  spec (section 4.2) says: the direct fields of the record, including the fields of
  embedded records, never the fields of a nested record that is not embedded; the type
  is unwrapped through pointers and collections. The fields are given in the order in
  which the callback of the source would see them. A type that is not a record is an
  error.
\<close>

fun TraverseStructRtype :: "rtype \<Rightarrow> error + sfield list"
  and traverse_fields :: "sfield list \<Rightarrow> sfield list"
  and embedded_fields :: "rtype \<Rightarrow> sfield list option" where
  "TraverseStructRtype (Struct fs) = Inr (traverse_fields fs)"
| "TraverseStructRtype (Ptr t) = TraverseStructRtype t"
| "TraverseStructRtype (Slice t) = TraverseStructRtype t"
| "TraverseStructRtype (Basic k) = Inl (ErrTraverse k)"
| "traverse_fields [] = []"
| "traverse_fields (StructField j d anon t # fs) =
     (if anon then (case embedded_fields t of Some inner \<Rightarrow> inner @ traverse_fields fs
                    | None \<Rightarrow> StructField j d anon t # traverse_fields fs)
      else StructField j d anon t # traverse_fields fs)"
| "embedded_fields (Struct fs) = Some (traverse_fields fs)"
| "embedded_fields (Ptr t) = embedded_fields t"
| "embedded_fields (Slice t) = None"
| "embedded_fields (Basic k) = None"

text \<open>Modelled from the spec: \<^verbatim>\<open>sqlb.FieldJsonName\<close> and \<^verbatim>\<open>sqlb.FieldDbName\<close> are not part
  of the sources; they are the public and the storage name of the descriptor.\<close>

definition FieldJsonName :: "sfield \<Rightarrow> string" where
  "FieldJsonName sf = JsonName sf"

definition FieldDbName :: "sfield \<Rightarrow> string" where
  "FieldDbName sf = DbName sf"

text \<open>The regular expression \<^verbatim>\<open>^(?:\w+\.)*\w+$\<close> of \<^verbatim>\<open>dottedPathReg\<close>, as the automaton
  that reads it: \<open>inword\<close> says that the segment being read has a word character
  already. \<^verbatim>\<open>\w\<close> is \<^verbatim>\<open>[0-9A-Za-z_]\<close>.\<close>

definition isWordChar :: "char \<Rightarrow> bool" where
  "isWordChar c =
     (c \<in> set (''0123456789'' @ ''ABCDEFGHIJKLMNOPQRSTUVWXYZ'' @ ''_'' @ ''abcdefghijklmnopqrstuvwxyz''))"

fun dottedPath_run :: "bool \<Rightarrow> string \<Rightarrow> bool" where
  "dottedPath_run inword [] = inword"
| "dottedPath_run inword (c # cs) =
     (if isWordChar c then dottedPath_run True cs
      else if c = CHR ''.'' \<and> inword then dottedPath_run False cs
      else False)"

definition dottedPathReg_MatchString :: "string \<Rightarrow> bool" where
  "dottedPathReg_MatchString s = dottedPath_run False s"

text \<open>\<^verbatim>\<open>strings.Split(pathStr, ".")\<close>.\<close>

fun Split_dot :: "string \<Rightarrow> string list" where
  "Split_dot [] = [[]]"
| "Split_dot (c # cs) =
     (if c = CHR ''.'' then [] # Split_dot cs
      else (case Split_dot cs of w # ws \<Rightarrow> (c # w) # ws | [] \<Rightarrow> [[c]]))"

text \<open>\<^verbatim>\<open>fieldByJsonName\<close> (jel_internal.go): the callback stops at the first field whose
  JSON name matches.\<close>

definition fieldByJsonName :: "rtype option \<Rightarrow> string \<Rightarrow> error + sfield" where
  "fieldByJsonName rtype name =
     (case rtype of
        None \<Rightarrow> Inl (ErrNoTypeField name)
      | Some t \<Rightarrow>
          (case TraverseStructRtype t of
             Inl err \<Rightarrow> Inl err
           | Inr sfields \<Rightarrow>
               (case find (\<lambda>sf. FieldJsonName sf = name) sfields of
                  Some sf \<Rightarrow> Inr sf
                | None \<Rightarrow> Inl (ErrNoField name))))"

text \<open>\<^verbatim>\<open>fieldByJsonPath\<close> (jel_internal.go). The loop replaces the segments of \<open>path\<close> by
  column names one by one; \<open>sfield\<close> is the named result, unset before the first
  iteration. The results are read by the callers only when no error is returned.\<close>

fun fieldByJsonPath_loop ::
  "string \<Rightarrow> rtype option \<Rightarrow> sfield option \<Rightarrow> string list \<Rightarrow> string list \<Rightarrow>
   error + (sfield option \<times> string list)" where
  "fieldByJsonPath_loop pathStr rtype sfield path [] = Inr (sfield, path)"
| "fieldByJsonPath_loop pathStr rtype sfield path (segment # rest) =
     (case fieldByJsonName rtype segment of
        Inl err \<Rightarrow> Inl err
      | Inr sf \<Rightarrow>
          (let colName = FieldDbName sf in
           if colName = [] then Inl (ErrNoColumn segment pathStr)
           else fieldByJsonPath_loop pathStr (Some (Type sf)) (Some sf) (path @ [colName]) rest))"

definition fieldByJsonPath :: "rtype option \<Rightarrow> string \<Rightarrow> error + (sfield option \<times> string list)" where
  "fieldByJsonPath rtype pathStr =
     (if \<not> dottedPathReg_MatchString pathStr then Inl (ErrInvalidPath pathStr)
      else if rtype = None then Inl (ErrNoTypePath pathStr)
      else fieldByJsonPath_loop pathStr rtype None [] (Split_dot pathStr))"

text \<open>The schema of the tests (jel_test.go).\<close>

definition External :: rtype where
  "External = Struct
     [StructField ''externalName'' ''external_name'' False (Basic ''string''),
      StructField ''internal'' ''internal'' False
        (Struct [StructField ''internalTime'' ''internal_time'' False (Ptr (Basic ''time.Time''))])]"

subsection \<open>jel.go: the operator table\<close>

datatype SqlOpSyntax = SqlPrefix | SqlPostfix | SqlInfix | SqlFunc | SqlAny | SqlBetween

text \<open>\<^verbatim>\<open>SqlOps\<close>: a name that is not a key gives the zero value in the source, \<open>None\<close>
  here.\<close>

definition SqlOps :: "string \<Rightarrow> SqlOpSyntax option" where
  "SqlOps = map_of
     [(''and'', SqlInfix),
      (''or'', SqlInfix),
      (''not'', SqlPrefix),
      (''is null'', SqlPostfix),
      (''is not null'', SqlPostfix),
      (''is true'', SqlPostfix),
      (''is not true'', SqlPostfix),
      (''is false'', SqlPostfix),
      (''is not false'', SqlPostfix),
      (''is unknown'', SqlPostfix),
      (''is not unknown'', SqlPostfix),
      (''is distinct from'', SqlInfix),
      (''is not distinct from'', SqlInfix),
      (''='', SqlInfix),
      (''~'', SqlInfix),
      (''~*'', SqlInfix),
      (''~='', SqlInfix),
      (''<>'', SqlInfix),
      (''<'', SqlInfix),
      (''>'', SqlInfix),
      (''>='', SqlInfix),
      (''<='', SqlInfix),
      (''@@'', SqlInfix),
      (''any'', SqlAny),
      (''between'', SqlBetween)]"

subsection \<open>Decoding JSON values\<close>

text \<open>
  Modelled from the spec: \<^verbatim>\<open>json.Unmarshal\<close> is not part of the sources. What a JSON
  value decodes to depends on the target: \<open>Unmarshal_interface\<close> is the decoding into an
  \<^verbatim>\<open>interface{}\<close> (section 4.3: a native dynamic value), \<open>Unmarshal_typed t\<close> the decoding
  into a new value of the type \<open>t\<close> (section 4.3: an instance of the leaf type, or a
  failure on mismatch). Both are parameters of the model; \<open>'v\<close> is the type of the Go
  values that end up in the argument list.
\<close>

record 'v codec =
  Unmarshal_interface :: "json \<Rightarrow> error + 'v"
  Unmarshal_typed :: "rtype \<Rightarrow> json \<Rightarrow> error + 'v"

text \<open>\<^verbatim>\<open>json.Unmarshal\<close> into a \<^verbatim>\<open>[]json.RawMessage\<close>, a \<^verbatim>\<open>string\<close>, an \<^verbatim>\<open>interface{}\<close> and
  a typed value. Text that is not valid JSON is an error for every target; \<^verbatim>\<open>null\<close>
  leaves a slice or a string as it was (empty).\<close>

definition Unmarshal_RawMessages :: "jtext \<Rightarrow> error + jtext list" where
  "Unmarshal_RawMessages input =
     (case input of
        Invalid s \<Rightarrow> Inl (ErrJson ''invalid JSON text'')
      | Valid (JList js) \<Rightarrow> Inr (map Valid js)
      | Valid JNull \<Rightarrow> Inr []
      | Valid _ \<Rightarrow> Inl (ErrJson ''cannot unmarshal into []json.RawMessage''))"

definition Unmarshal_string :: "jtext \<Rightarrow> error + string" where
  "Unmarshal_string input =
     (case input of
        Invalid s \<Rightarrow> Inl (ErrJson ''invalid JSON text'')
      | Valid (JString s) \<Rightarrow> Inr s
      | Valid JNull \<Rightarrow> Inr []
      | Valid _ \<Rightarrow> Inl (ErrJson ''cannot unmarshal into string''))"

definition Unmarshal_any :: "'v codec \<Rightarrow> jtext \<Rightarrow> error + 'v" where
  "Unmarshal_any J input =
     (case input of
        Invalid s \<Rightarrow> Inl (ErrJson ''invalid JSON text'')
      | Valid j \<Rightarrow> Unmarshal_interface J j)"

definition Unmarshal_into :: "'v codec \<Rightarrow> rtype \<Rightarrow> jtext \<Rightarrow> error + 'v" where
  "Unmarshal_into J t input =
     (case input of
        Invalid s \<Rightarrow> Inl (ErrJson ''invalid JSON text'')
      | Valid j \<Rightarrow> Unmarshal_typed J t j)"

subsection \<open>The SQL builder\<close>

text \<open>
  Modelled from the spec: \<^verbatim>\<open>sqlb.Bui\<close> is not part of the sources. The spec (section 6)
  lists its operations: append literal text (\<open>Bui_Str\<close>), append a parameter, which
  returns its ordinal (\<open>Bui_Arg\<close>, and \<open>Bui_Param\<close> for the placeholder \<^verbatim>\<open>$n\<close>, counted
  from 1 and aligned with the arguments), append a sub-expression (\<open>Bui_Set\<close> of what the
  sub-expression appended to \<open>Bui_Get\<close>) and get the text and the arguments. The
  separating space follows the outputs documented in jel_test.go and section 8: one
  space between two pieces unless the text so far is empty or ends with white space or an
  opening parenthesis, or the piece starts with white space, a closing parenthesis or a
  comma.
\<close>

record 'v Bui =
  Bui_Text :: string
  Bui_Args :: "'v list"

definition isWhitespaceChar :: "char \<Rightarrow> bool" where
  "isWhitespaceChar c = (c \<in> {CHR '' '', CHR 0x0A, CHR 0x0D, CHR 0x09, CHR 0x0B})"

definition hasDelimSuffix :: "string \<Rightarrow> bool" where
  "hasDelimSuffix text = (text = [] \<or> isWhitespaceChar (last text) \<or> last text = CHR ''('')"

definition hasDelimPrefix :: "string \<Rightarrow> bool" where
  "hasDelimPrefix text = (text \<noteq> [] \<and> (isWhitespaceChar (hd text) \<or> hd text = CHR '')'' \<or> hd text = CHR '',''))"

definition appendMaybeSpaced :: "string \<Rightarrow> string \<Rightarrow> string" where
  "appendMaybeSpaced text suffix =
     (if \<not> hasDelimSuffix text \<and> \<not> hasDelimPrefix suffix then text @ '' '' @ suffix
      else text @ suffix)"

definition maybeAppendSpace :: "string \<Rightarrow> string" where
  "maybeAppendSpace text = (if hasDelimSuffix text then text else text @ '' '')"

text \<open>Decimal digits of an ordinal.\<close>

function Itoa :: "nat \<Rightarrow> string" where
  "Itoa n = (if n < 10 then [''0123456789'' ! n] else Itoa (n div 10) @ [''0123456789'' ! (n mod 10)])"
  by pat_completeness auto
termination
  by (relation "measure id") auto

declare Itoa.simps [simp del]

definition Bui_Get :: "'v Bui \<Rightarrow> string \<times> 'v list" where
  "Bui_Get self = (Bui_Text self, Bui_Args self)"

definition Bui_Set :: "'v Bui \<Rightarrow> string \<times> 'v list \<Rightarrow> 'v Bui" where
  "Bui_Set self ta = self\<lparr>Bui_Text := fst ta, Bui_Args := snd ta\<rparr>"

definition Bui_Str :: "'v Bui \<Rightarrow> string \<Rightarrow> 'v Bui" where
  "Bui_Str self val = self\<lparr>Bui_Text := appendMaybeSpaced (Bui_Text self) val\<rparr>"

definition Bui_Arg :: "'v Bui \<Rightarrow> 'v \<Rightarrow> 'v Bui \<times> nat" where
  "Bui_Arg self val =
     (let self1 = self\<lparr>Bui_Args := Bui_Args self @ [val]\<rparr> in (self1, length (Bui_Args self1)))"

definition Bui_Param :: "'v Bui \<Rightarrow> nat \<Rightarrow> 'v Bui" where
  "Bui_Param self ord = self\<lparr>Bui_Text := maybeAppendSpace (Bui_Text self) @ ''$'' @ Itoa ord\<rparr>"

text \<open>
  Modelled from the spec: \<^verbatim>\<open>sqlb.Path\<close> is not part of the sources. The spec (sections 4.3
  and 6) says: a path of length 1 gives one quoted identifier, a longer path the first
  segment between parentheses and quotes, then every further segment after a dot; an
  identifier that holds a double quote is rejected.
\<close>

definition Path_AppendExpr :: "string list \<Rightarrow> string \<times> 'v list \<Rightarrow> pval + (string \<times> 'v list)" where
  "Path_AppendExpr path ta =
     (case find hasQuote path of
        Some bad \<Rightarrow> Inl (PError (ErrQuoteInIdent bad))
      | None \<Rightarrow>
          (case path of
             [] \<Rightarrow> Inr ta
           | [a] \<Rightarrow> Inr (maybeAppendSpace (fst ta) @ quoted a, snd ta)
           | a # rest \<Rightarrow>
               Inr (appendMaybeSpaced (fst ta) ''('' @ quoted a @ '')'' @
                      concat (map (\<lambda>s. ''.'' @ quoted s) rest), snd ta)))"

subsection \<open>jel.go: the expression compiler\<close>

text \<open>\<^verbatim>\<open>Expr\<close>. A failure is a panic: the functions below return the panic value
  (\<open>Inl\<close>) or the builder as they leave it (\<open>Inr\<close>). The builder is local to
  \<^verbatim>\<open>AppendExpr\<close>, so it is lost with a panic.\<close>

record Expr =
  Expr_Text :: jtext
  Expr_Type :: "rtype option"
  Expr_IsBool :: bool

definition openParen :: "'v Bui \<Rightarrow> 'v Bui" where
  "openParen bui = Bui_Str bui ''(''"

definition closeParen :: "'v Bui \<Rightarrow> 'v Bui" where
  "closeParen bui = Bui_Str bui '')''"

definition decodeCast :: "'v codec \<Rightarrow> Expr \<Rightarrow> 'v Bui \<Rightarrow> string \<Rightarrow> jtext list \<Rightarrow> pval + 'v Bui" where
  "decodeCast J self bui name args =
     (if length args \<noteq> 1 then Inl (PError (ErrCastArity name (length args)))
      else
        (case fieldByJsonPath (Expr_Type self) name of
           Inl err \<Rightarrow> Inl (PError err)
         | Inr (sfield, _) \<Rightarrow>
             (case sfield of
                None \<Rightarrow> Inl (POther ''reflect: New(nil)'')
              | Some sf \<Rightarrow>
                  (case Unmarshal_into J (Type sf) (args ! 0) of
                     Inl err \<Rightarrow> Inl (PError err)
                   | Inr rval \<Rightarrow>
                       (case Bui_Arg bui rval of (bui1, ord) \<Rightarrow> Inr (Bui_Param bui1 ord))))))"

definition decodeString :: "Expr \<Rightarrow> 'v Bui \<Rightarrow> jtext \<Rightarrow> pval + 'v Bui" where
  "decodeString self bui input =
     (case Unmarshal_string input of
        Inl err \<Rightarrow> Inl (PError err)
      | Inr str \<Rightarrow>
          (case fieldByJsonPath (Expr_Type self) str of
             Inl err \<Rightarrow> Inl (PError err)
           | Inr (_, path) \<Rightarrow>
               (case Path_AppendExpr path (Bui_Get bui) of
                  Inl p \<Rightarrow> Inl p
                | Inr ta \<Rightarrow> Inr (Bui_Set bui ta))))"

definition decodeAny :: "'v codec \<Rightarrow> 'v Bui \<Rightarrow> jtext \<Rightarrow> pval + 'v Bui" where
  "decodeAny J bui input =
     (case Unmarshal_any J input of
        Inl err \<Rightarrow> Inl (PError err)
      | Inr val \<Rightarrow> (case Bui_Arg bui val of (bui1, ord) \<Rightarrow> Inr (Bui_Param bui1 ord)))"

text \<open>What decreases along the recursion: the number of nodes of the JSON value.\<close>

fun jsize :: "json \<Rightarrow> nat" where
  "jsize (JList js) = Suc (sum_list (map jsize js))"
| "jsize _ = 1"

definition tsize :: "jtext \<Rightarrow> nat" where
  "tsize t = (case t of Invalid _ \<Rightarrow> 1 | Valid j \<Rightarrow> jsize j)"

definition lsize :: "jtext list \<Rightarrow> nat" where
  "lsize ts = sum_list (map tsize ts)"

lemma jsize_pos: "0 < jsize j"
  by (cases j) simp_all

lemma tsize_pos: "0 < tsize t"
  by (cases t) (simp_all add: tsize_def jsize_pos)

lemma lsize_Unmarshal: "Unmarshal_RawMessages input = Inr list \<Longrightarrow> lsize list < tsize input"
  by (auto simp: Unmarshal_RawMessages_def lsize_def tsize_def comp_def
      split: jtext.splits json.splits)

lemma lsize_tl: "lsize (tl list) \<le> lsize list"
  by (cases list) (simp_all add: lsize_def)

lemma lsize_nth: "i < length args \<Longrightarrow> tsize (args ! i) \<le> lsize args"
  unfolding lsize_def
  by (induction args arbitrary: i) (auto simp: less_Suc_eq_0_disj trans_le_add2)

lemma lsize_tl_Unmarshal:
  "Unmarshal_RawMessages input = Inr list \<Longrightarrow> list \<noteq> [] \<Longrightarrow> Suc (lsize (tl list)) < tsize input"
  using lsize_Unmarshal [of input list] tsize_pos [of "hd list"]
  by (cases list) (simp_all add: lsize_def)

lemma lsize_tl_Unmarshal3:
  "Unmarshal_RawMessages input = Inr list \<Longrightarrow> list \<noteq> [] \<Longrightarrow> 3 + 3 * lsize (tl list) < 3 * tsize input"
  using lsize_tl_Unmarshal [of input list] by simp

lemma lsize_tl_Unmarshal2:
  "Unmarshal_RawMessages input = Inr list \<Longrightarrow> list \<noteq> [] \<Longrightarrow> Suc (Suc (3 * lsize (tl list))) < 3 * tsize input"
  using lsize_tl_Unmarshal [of input list] by simp

lemma lsize_nth3: "i < length args \<Longrightarrow> 3 * tsize (args ! i) < Suc (3 * lsize args)"
  using lsize_nth [of i args] by simp

lemma lsize_Cons: "lsize (arg # rest) = tsize arg + lsize rest"
  by (simp add: lsize_def)

text \<open>\<^verbatim>\<open>decode\<close>, \<^verbatim>\<open>decodeList\<close> and the functions of the syntax forms. The two loops
  \<^verbatim>\<open>for i, arg := range args\<close> are \<open>decodeOpInfix_loop\<close> and \<open>decodeOpFunc_loop\<close>, with
  the index \<open>i\<close> and the arguments still to be read.\<close>

function decode :: "'v codec \<Rightarrow> Expr \<Rightarrow> 'v Bui \<Rightarrow> jtext \<Rightarrow> pval + 'v Bui"
  and decodeList :: "'v codec \<Rightarrow> Expr \<Rightarrow> 'v Bui \<Rightarrow> jtext \<Rightarrow> pval + 'v Bui"
  and decodeOpPrefix :: "'v codec \<Rightarrow> Expr \<Rightarrow> 'v Bui \<Rightarrow> string \<Rightarrow> jtext list \<Rightarrow> pval + 'v Bui"
  and decodeOpPostfix :: "'v codec \<Rightarrow> Expr \<Rightarrow> 'v Bui \<Rightarrow> string \<Rightarrow> jtext list \<Rightarrow> pval + 'v Bui"
  and decodeOpInfix :: "'v codec \<Rightarrow> Expr \<Rightarrow> 'v Bui \<Rightarrow> string \<Rightarrow> jtext list \<Rightarrow> pval + 'v Bui"
  and decodeOpInfix_loop :: "'v codec \<Rightarrow> Expr \<Rightarrow> 'v Bui \<Rightarrow> string \<Rightarrow> nat \<Rightarrow> jtext list \<Rightarrow> pval + 'v Bui"
  and decodeOpFunc :: "'v codec \<Rightarrow> Expr \<Rightarrow> 'v Bui \<Rightarrow> string \<Rightarrow> jtext list \<Rightarrow> pval + 'v Bui"
  and decodeOpFunc_loop :: "'v codec \<Rightarrow> Expr \<Rightarrow> 'v Bui \<Rightarrow> nat \<Rightarrow> jtext list \<Rightarrow> pval + 'v Bui"
  and decodeOpAny :: "'v codec \<Rightarrow> Expr \<Rightarrow> 'v Bui \<Rightarrow> string \<Rightarrow> jtext list \<Rightarrow> pval + 'v Bui"
  and decodeOpBetween :: "'v codec \<Rightarrow> Expr \<Rightarrow> 'v Bui \<Rightarrow> string \<Rightarrow> jtext list \<Rightarrow> pval + 'v Bui"
where
  "decode J self bui input =
     (if isJsonDict input then Inl (PError ErrUnexpectedDict)
      else if isJsonList input then decodeList J self bui input
      else if isJsonString input then decodeString self bui input
      else decodeAny J bui input)"
| "decodeList J self bui input =
     (case Unmarshal_RawMessages input of
        Inl err \<Rightarrow> Inl (PError (ErrUnmarshalList ''json''))
      | Inr list \<Rightarrow>
          if \<not> (length list > 0) then Inl (PError ErrEmptyList)
          else if \<not> isJsonString (hd list) then Inl (PError ErrHeadNotString)
          else
            (case Unmarshal_string (hd list) of
               Inl err \<Rightarrow> Inl (PError (ErrUnmarshalHead ''json''))
             | Inr name \<Rightarrow>
                 (case SqlOps name of
                    Some SqlPrefix \<Rightarrow> decodeOpPrefix J self bui name (tl list)
                  | Some SqlPostfix \<Rightarrow> decodeOpPostfix J self bui name (tl list)
                  | Some SqlInfix \<Rightarrow> decodeOpInfix J self bui name (tl list)
                  | Some SqlFunc \<Rightarrow> decodeOpFunc J self bui name (tl list)
                  | Some SqlAny \<Rightarrow> decodeOpAny J self bui name (tl list)
                  | Some SqlBetween \<Rightarrow> decodeOpBetween J self bui name (tl list)
                  | None \<Rightarrow> decodeCast J self bui name (tl list))))"
| "decodeOpPrefix J self bui name args =
     (if length args \<noteq> 1 then Inl (PError (ErrPrefixArity name (length args)))
      else
        (case decode J self (Bui_Str (openParen bui) name) (args ! 0) of
           Inl p \<Rightarrow> Inl p
         | Inr bui1 \<Rightarrow> Inr (closeParen bui1)))"
| "decodeOpPostfix J self bui name args =
     (if length args \<noteq> 1 then Inl (PError (ErrPostfixArity name (length args)))
      else
        (case decode J self (openParen bui) (args ! 0) of
           Inl p \<Rightarrow> Inl p
         | Inr bui1 \<Rightarrow> Inr (closeParen (Bui_Str bui1 name))))"
| "decodeOpInfix J self bui name args =
     (if \<not> (length args \<ge> 2) then Inl (PError (ErrInfixArity name (length args)))
      else
        (case decodeOpInfix_loop J self (openParen bui) name 0 args of
           Inl p \<Rightarrow> Inl p
         | Inr bui1 \<Rightarrow> Inr (closeParen bui1)))"
| "decodeOpInfix_loop J self bui name i [] = Inr bui"
| "decodeOpInfix_loop J self bui name i (arg # rest) =
     (case decode J self (if i > 0 then Bui_Str bui name else bui) arg of
        Inl p \<Rightarrow> Inl p
      | Inr bui1 \<Rightarrow> decodeOpInfix_loop J self bui1 name (Suc i) rest)"
| "decodeOpFunc J self bui name args =
     (case decodeOpFunc_loop J self (openParen (Bui_Str bui name)) 0 args of
        Inl p \<Rightarrow> Inl p
      | Inr bui1 \<Rightarrow> Inr (closeParen bui1))"
| "decodeOpFunc_loop J self bui i [] = Inr bui"
| "decodeOpFunc_loop J self bui i (arg # rest) =
     (case decode J self (if i > 0 then Bui_Str bui '','' else bui) arg of
        Inl p \<Rightarrow> Inl p
      | Inr bui1 \<Rightarrow> decodeOpFunc_loop J self bui1 (Suc i) rest)"
| "decodeOpAny J self bui name args =
     (if length args \<noteq> 2 then Inl (PError (ErrOpArity name 2 (length args)))
      else
        (case decode J self (openParen bui) (args ! 0) of
           Inl p \<Rightarrow> Inl p
         | Inr bui1 \<Rightarrow>
             (case decode J self (openParen (Bui_Str (Bui_Str bui1 ''='') name)) (args ! 1) of
                Inl p \<Rightarrow> Inl p
              | Inr bui2 \<Rightarrow> Inr (closeParen (closeParen bui2)))))"
| "decodeOpBetween J self bui name args =
     (if length args \<noteq> 3 then Inl (PError (ErrOpArity name 3 (length args)))
      else
        (case decode J self (openParen bui) (args ! 0) of
           Inl p \<Rightarrow> Inl p
         | Inr bui1 \<Rightarrow>
             (case decode J self (Bui_Str bui1 ''between'') (args ! 1) of
                Inl p \<Rightarrow> Inl p
              | Inr bui2 \<Rightarrow>
                  (case decode J self (Bui_Str bui2 ''and'') (args ! 2) of
                     Inl p \<Rightarrow> Inl p
                   | Inr bui3 \<Rightarrow> Inr (closeParen bui3)))))"
  by pat_completeness auto
termination
proof (relation "measure
    (case_sum
      (case_sum
        (case_sum (\<lambda>(J, self, bui, input). 3 * tsize input + 2)
                  (\<lambda>(J, self, bui, input). 3 * tsize input + 1))
        (case_sum (\<lambda>(J, self, bui, name, args). 3 * lsize args + 3)
          (case_sum (\<lambda>(J, self, bui, name, args). 3 * lsize args + 3)
                    (\<lambda>(J, self, bui, name, args). 3 * lsize args + 4))))
      (case_sum
        (case_sum (\<lambda>(J, self, bui, name, i, args). 3 * lsize args + 3)
                  (\<lambda>(J, self, bui, name, args). 3 * lsize args + 4))
        (case_sum (\<lambda>(J, self, bui, i, args). 3 * lsize args + 3)
          (case_sum (\<lambda>(J, self, bui, name, args). 3 * lsize args + 3)
                    (\<lambda>(J, self, bui, name, args). 3 * lsize args + 3)))))",
    goal_cases)
  case 1
  show ?case by simp
qed (auto simp: lsize_Cons tsize_pos lsize_nth3 lsize_tl_Unmarshal2 lsize_tl_Unmarshal3)

declare decode.simps [simp del] decodeList.simps [simp del] decodeOpPrefix.simps [simp del]
  decodeOpPostfix.simps [simp del] decodeOpInfix.simps [simp del] decodeOpFunc.simps [simp del]
  decodeOpAny.simps [simp del] decodeOpBetween.simps [simp del]

text \<open>\<^verbatim>\<open>UnmarshalText\<close> and \<^verbatim>\<open>UnmarshalJSON\<close> of jel.go: the new receiver and the error
  returned.\<close>

definition UnmarshalText :: "Expr \<Rightarrow> jtext \<Rightarrow> Expr \<times> error option" where
  "UnmarshalText self val = (self\<lparr>Expr_Text := val\<rparr>, None)"

definition UnmarshalJSON :: "Expr \<Rightarrow> jtext \<Rightarrow> Expr \<times> error option" where
  "UnmarshalJSON self val = (self\<lparr>Expr_Text := val\<rparr>, None)"

text \<open>The length of a text: only the empty text has length 0.\<close>

definition len :: "jtext \<Rightarrow> nat" where
  "len t = (case t of Invalid s \<Rightarrow> length s | Valid j \<Rightarrow> jsize j)"

text \<open>\<^verbatim>\<open>Expr.AppendExpr\<close>: the panic value, or the text and the arguments returned.\<close>

definition AppendExpr :: "'v codec \<Rightarrow> Expr \<Rightarrow> string \<Rightarrow> 'v list \<Rightarrow> pval + (string \<times> 'v list)" where
  "AppendExpr J self text args =
     (let bui = \<lparr>Bui_Text = text, Bui_Args = args\<rparr> in
      if Expr_IsBool self \<and> len (Expr_Text self) = 0 then Inr (Bui_Get (Bui_Str bui ''true''))
      else
        (case decode J self bui (Expr_Text self) of
           Inl p \<Rightarrow> Inl p
         | Inr bui1 \<Rightarrow> Inr (Bui_Get bui1)))"

subsection \<open>part_000 and utils.go: the compiler that returns errors\<close>

text \<open>\<^verbatim>\<open>appendSpaceIfNeeded\<close>, \<^verbatim>\<open>endsWithWhitspace\<close> (utils.go): the last rune is one of the
  five ASCII characters of \<^verbatim>\<open>isWhitespaceChar\<close> exactly when the last byte is.\<close>

definition endsWithWhitspace :: "string \<Rightarrow> bool" where
  "endsWithWhitspace chunk = (chunk \<noteq> [] \<and> isWhitespaceChar (last chunk))"

definition appendSpaceIfNeeded :: "string \<Rightarrow> string" where
  "appendSpaceIfNeeded buf =
     (if length buf > 0 \<and> \<not> endsWithWhitspace buf then buf @ '' '' else buf)"

text \<open>
  Modelled from the spec: \<^verbatim>\<open>sqlb.Query\<close> is not part of the sources. Of the builder of
  section 6, \<open>Query_Append\<close> is \<^verbatim>\<open>Append(src)\<close> for text without parameters, and
  \<open>Query_Append_param\<close> is \<^verbatim>\<open>Append("$1", val)\<close>: the placeholder gets the ordinal of the new
  argument. Both put a space first as \<^verbatim>\<open>appendSpaceIfNeeded\<close> does, which utils.go says
  is duplicated from \<^verbatim>\<open>sqlb\<close>.
\<close>

record 'v Query =
  Query_Text :: string
  Query_Args :: "'v list"

definition Query_Append :: "('v, 'x) Query_scheme \<Rightarrow> string \<Rightarrow> ('v, 'x) Query_scheme" where
  "Query_Append self src = self\<lparr>Query_Text := appendSpaceIfNeeded (Query_Text self) @ src\<rparr>"

definition Query_Append_param :: "('v, 'x) Query_scheme \<Rightarrow> 'v \<Rightarrow> ('v, 'x) Query_scheme" where
  "Query_Append_param self val =
     self\<lparr>Query_Text := appendSpaceIfNeeded (Query_Text self) @ ''$'' @ Itoa (Suc (length (Query_Args self))),
          Query_Args := Query_Args self @ [val]\<rparr>"

text \<open>\<^verbatim>\<open>Expr\<close> of part_000 embeds the query it builds.\<close>

record 'v Expr_p0 = "'v Query" +
  Expr_p0_Type :: "rtype option"
  Expr_p0_IsBool :: bool

text \<open>How a function that returns an \<^verbatim>\<open>error\<close> ends: it returns (\<^verbatim>\<open>nil\<close> is \<open>None\<close>), or
  it panics. The receiver is a pointer, so every function also gives the receiver as it
  leaves it, whatever the outcome.\<close>

datatype outcome = Returned "error option" | Panicked pval

text \<open>\<^verbatim>\<open>defer rec(&err)\<close>: applied to the outcome of the body. A panic with an
  \<^verbatim>\<open>error\<close> becomes the returned error, any other panic goes on.\<close>

definition rec :: "outcome \<Rightarrow> outcome" where
  "rec out =
     (case out of
        Returned err \<Rightarrow> Returned err
      | Panicked (PError recErr) \<Rightarrow> Returned (Some recErr)
      | Panicked (POther val) \<Rightarrow> Panicked (POther val))"

text \<open>\<^verbatim>\<open>must(self.decode(...))\<close>: the panic that ends the caller, if any; a panic of the
  callee passes through, an error it returns is the value of a new panic.\<close>

definition must :: "outcome \<Rightarrow> pval option" where
  "must out =
     (case out of
        Returned None \<Rightarrow> None
      | Returned (Some err) \<Rightarrow> Some (PError err)
      | Panicked p \<Rightarrow> Some p)"

text \<open>Modelled from the spec: \<^verbatim>\<open>refut.TagIdent\<close> is not part of the sources; the names it
  reads from the \<^verbatim>\<open>json\<close> and \<^verbatim>\<open>db\<close> tags are the public and the storage name of the
  descriptor.\<close>

definition sfieldJsonFieldName :: "sfield \<Rightarrow> string" where
  "sfieldJsonFieldName sf = JsonName sf"

definition sfieldColumnName :: "sfield \<Rightarrow> string" where
  "sfieldColumnName sf = DbName sf"

text \<open>\<^verbatim>\<open>sfieldByJsonName\<close> and \<^verbatim>\<open>structFieldByJsonPath\<close> (utils.go).\<close>

definition sfieldByJsonName :: "rtype option \<Rightarrow> string \<Rightarrow> error + sfield" where
  "sfieldByJsonName rtype name =
     (case rtype of
        None \<Rightarrow> Inl (ErrNoTypeField name)
      | Some t \<Rightarrow>
          (case TraverseStructRtype t of
             Inl err \<Rightarrow> Inl err
           | Inr sfields \<Rightarrow>
               (case find (\<lambda>sf. sfieldJsonFieldName sf = name) sfields of
                  Some sf \<Rightarrow> Inr sf
                | None \<Rightarrow> Inl (ErrNoField name))))"

fun structFieldByJsonPath_loop ::
  "string \<Rightarrow> rtype option \<Rightarrow> sfield option \<Rightarrow> string list \<Rightarrow> string list \<Rightarrow>
   error + (sfield option \<times> string list)" where
  "structFieldByJsonPath_loop pathStr rtype sfield path [] = Inr (sfield, path)"
| "structFieldByJsonPath_loop pathStr rtype sfield path (segment # rest) =
     (case sfieldByJsonName rtype segment of
        Inl err \<Rightarrow> Inl err
      | Inr sf \<Rightarrow>
          (let colName = sfieldColumnName sf in
           if colName = [] then Inl (ErrNoColumn segment pathStr)
           else structFieldByJsonPath_loop pathStr (Some (Type sf)) (Some sf) (path @ [colName]) rest))"

definition structFieldByJsonPath ::
  "rtype option \<Rightarrow> string \<Rightarrow> error + (sfield option \<times> string list)" where
  "structFieldByJsonPath rtype pathStr =
     (if \<not> dottedPathReg_MatchString pathStr then Inl (ErrInvalidPath pathStr)
      else if rtype = None then Inl (ErrNoTypePath pathStr)
      else structFieldByJsonPath_loop pathStr rtype None [] (Split_dot pathStr))"

text \<open>The methods of \<^verbatim>\<open>Expr\<close> in part_000.\<close>

definition openParen_p0 :: "'v Expr_p0 \<Rightarrow> 'v Expr_p0" where
  "openParen_p0 self = Query_Append self ''(''"

definition closeParen_p0 :: "'v Expr_p0 \<Rightarrow> 'v Expr_p0" where
  "closeParen_p0 self = Query_Append self '')''"

definition decodeCast_p0 ::
  "'v codec \<Rightarrow> 'v Expr_p0 \<Rightarrow> string \<Rightarrow> jtext list \<Rightarrow> 'v Expr_p0 \<times> outcome" where
  "decodeCast_p0 J self name args =
     apsnd rec
       (if length args \<noteq> 1 then (self, Returned (Some (ErrCastArity name (length args))))
        else
          (case structFieldByJsonPath (Expr_p0_Type self) name of
             Inl err \<Rightarrow> (self, Panicked (PError err))
           | Inr (sfield, _) \<Rightarrow>
               (case sfield of
                  None \<Rightarrow> (self, Panicked (POther ''reflect: New(nil)''))
                | Some sf \<Rightarrow>
                    (case Unmarshal_into J (Type sf) (args ! 0) of
                       Inl err \<Rightarrow> (self, Panicked (PError err))
                     | Inr rval \<Rightarrow> (Query_Append_param self rval, Returned None)))))"

definition decodeString_p0 :: "'v Expr_p0 \<Rightarrow> jtext \<Rightarrow> 'v Expr_p0 \<times> outcome" where
  "decodeString_p0 self input =
     apsnd rec
       (case Unmarshal_string input of
          Inl err \<Rightarrow> (self, Panicked (PError err))
        | Inr str \<Rightarrow>
            (case structFieldByJsonPath (Expr_p0_Type self) str of
               Inl err \<Rightarrow> (self, Returned (Some err))
             | Inr (_, path) \<Rightarrow>
                 (case appendSqlPath (Query_Text self) path of
                    (text, Some p) \<Rightarrow> (self\<lparr>Query_Text := text\<rparr>, Panicked p)
                  | (text, None) \<Rightarrow> (self\<lparr>Query_Text := text\<rparr>, Returned None))))"

definition decodeAny_p0 :: "'v codec \<Rightarrow> 'v Expr_p0 \<Rightarrow> jtext \<Rightarrow> 'v Expr_p0 \<times> outcome" where
  "decodeAny_p0 J self input =
     (case Unmarshal_any J input of
        Inl err \<Rightarrow> (self, Returned (Some err))
      | Inr val \<Rightarrow> (Query_Append_param self val, Returned None))"

function decode_p0 :: "'v codec \<Rightarrow> 'v Expr_p0 \<Rightarrow> jtext \<Rightarrow> 'v Expr_p0 \<times> outcome"
  and decodeList_p0 :: "'v codec \<Rightarrow> 'v Expr_p0 \<Rightarrow> jtext \<Rightarrow> 'v Expr_p0 \<times> outcome"
  and decodeOpPrefix_p0 :: "'v codec \<Rightarrow> 'v Expr_p0 \<Rightarrow> string \<Rightarrow> jtext list \<Rightarrow> 'v Expr_p0 \<times> outcome"
  and decodeOpPostfix_p0 :: "'v codec \<Rightarrow> 'v Expr_p0 \<Rightarrow> string \<Rightarrow> jtext list \<Rightarrow> 'v Expr_p0 \<times> outcome"
  and decodeOpInfix_p0 :: "'v codec \<Rightarrow> 'v Expr_p0 \<Rightarrow> string \<Rightarrow> jtext list \<Rightarrow> 'v Expr_p0 \<times> outcome"
  and decodeOpInfix_p0_loop :: "'v codec \<Rightarrow> 'v Expr_p0 \<Rightarrow> string \<Rightarrow> nat \<Rightarrow> jtext list \<Rightarrow> 'v Expr_p0 \<times> outcome"
  and decodeOpFunc_p0 :: "'v codec \<Rightarrow> 'v Expr_p0 \<Rightarrow> string \<Rightarrow> jtext list \<Rightarrow> 'v Expr_p0 \<times> outcome"
  and decodeOpFunc_p0_loop :: "'v codec \<Rightarrow> 'v Expr_p0 \<Rightarrow> nat \<Rightarrow> jtext list \<Rightarrow> 'v Expr_p0 \<times> outcome"
  and decodeOpAny_p0 :: "'v codec \<Rightarrow> 'v Expr_p0 \<Rightarrow> string \<Rightarrow> jtext list \<Rightarrow> 'v Expr_p0 \<times> outcome"
  and decodeOpBetween_p0 :: "'v codec \<Rightarrow> 'v Expr_p0 \<Rightarrow> string \<Rightarrow> jtext list \<Rightarrow> 'v Expr_p0 \<times> outcome"
where
  "decode_p0 J self input =
     (if isJsonDict input then (self, Returned (Some ErrUnexpectedDict))
      else if isJsonList input then decodeList_p0 J self input
      else if isJsonString input then decodeString_p0 self input
      else decodeAny_p0 J self input)"
| "decodeList_p0 J self input =
     (case Unmarshal_RawMessages input of
        Inl err \<Rightarrow> (self, Returned (Some (ErrUnmarshalList ''json'')))
      | Inr list \<Rightarrow>
          if \<not> (length list > 0) then (self, Returned (Some ErrEmptyList))
          else if \<not> isJsonString (hd list) then (self, Returned (Some ErrHeadNotString))
          else
            (case Unmarshal_string (hd list) of
               Inl err \<Rightarrow> (self, Returned (Some (ErrUnmarshalHead ''json'')))
             | Inr name \<Rightarrow>
                 (case SqlOps name of
                    Some SqlPrefix \<Rightarrow> decodeOpPrefix_p0 J self name (tl list)
                  | Some SqlPostfix \<Rightarrow> decodeOpPostfix_p0 J self name (tl list)
                  | Some SqlInfix \<Rightarrow> decodeOpInfix_p0 J self name (tl list)
                  | Some SqlFunc \<Rightarrow> decodeOpFunc_p0 J self name (tl list)
                  | Some SqlAny \<Rightarrow> decodeOpAny_p0 J self name (tl list)
                  | Some SqlBetween \<Rightarrow> decodeOpBetween_p0 J self name (tl list)
                  | None \<Rightarrow> decodeCast_p0 J self name (tl list))))"
| "decodeOpPrefix_p0 J self name args =
     apsnd rec
       (if length args \<noteq> 1 then (self, Returned (Some (ErrPrefixArity name (length args))))
        else
          (case decode_p0 J (Query_Append (openParen_p0 self) name) (args ! 0) of
             (self1, out) \<Rightarrow>
               (case must out of
                  Some p \<Rightarrow> (self1, Panicked p)
                | None \<Rightarrow> (closeParen_p0 self1, Returned None))))"
| "decodeOpPostfix_p0 J self name args =
     apsnd rec
       (if length args \<noteq> 1 then (self, Returned (Some (ErrPostfixArity name (length args))))
        else
          (case decode_p0 J (openParen_p0 self) (args ! 0) of
             (self1, out) \<Rightarrow>
               (case must out of
                  Some p \<Rightarrow> (self1, Panicked p)
                | None \<Rightarrow> (closeParen_p0 (Query_Append self1 name), Returned None))))"
| "decodeOpInfix_p0 J self name args =
     apsnd rec
       (if \<not> (length args \<ge> 2) then (self, Returned (Some (ErrInfixArity name (length args))))
        else
          (case decodeOpInfix_p0_loop J (openParen_p0 self) name 0 args of
             (self1, Panicked p) \<Rightarrow> (self1, Panicked p)
           | (self1, Returned _) \<Rightarrow> (closeParen_p0 self1, Returned None)))"
| "decodeOpInfix_p0_loop J self name i [] = (self, Returned None)"
| "decodeOpInfix_p0_loop J self name i (arg # rest) =
     (case decode_p0 J (if i > 0 then Query_Append self name else self) arg of
        (self1, out) \<Rightarrow>
          (case must out of
             Some p \<Rightarrow> (self1, Panicked p)
           | None \<Rightarrow> decodeOpInfix_p0_loop J self1 name (Suc i) rest))"
| "decodeOpFunc_p0 J self name args =
     apsnd rec
       (case decodeOpFunc_p0_loop J (openParen_p0 (Query_Append self name)) 0 args of
          (self1, Panicked p) \<Rightarrow> (self1, Panicked p)
        | (self1, Returned _) \<Rightarrow> (closeParen_p0 self1, Returned None))"
| "decodeOpFunc_p0_loop J self i [] = (self, Returned None)"
| "decodeOpFunc_p0_loop J self i (arg # rest) =
     (case decode_p0 J (if i > 0 then self\<lparr>Query_Text := appendStr (Query_Text self) '', ''\<rparr> else self) arg of
        (self1, out) \<Rightarrow>
          (case must out of
             Some p \<Rightarrow> (self1, Panicked p)
           | None \<Rightarrow> decodeOpFunc_p0_loop J self1 (Suc i) rest))"
| "decodeOpAny_p0 J self name args =
     apsnd rec
       (if length args \<noteq> 2 then (self, Returned (Some (ErrOpArity name 2 (length args))))
        else
          (case decode_p0 J (openParen_p0 self) (args ! 0) of
             (self1, out1) \<Rightarrow>
               (case must out1 of
                  Some p \<Rightarrow> (self1, Panicked p)
                | None \<Rightarrow>
                    (case decode_p0 J (openParen_p0 (Query_Append (Query_Append self1 ''='') name)) (args ! 1) of
                       (self2, out2) \<Rightarrow>
                         (case must out2 of
                            Some p \<Rightarrow> (self2, Panicked p)
                          | None \<Rightarrow> (closeParen_p0 (closeParen_p0 self2), Returned None))))))"
| "decodeOpBetween_p0 J self name args =
     apsnd rec
       (if length args \<noteq> 3 then (self, Returned (Some (ErrOpArity name 3 (length args))))
        else
          (case decode_p0 J (openParen_p0 self) (args ! 0) of
             (self1, out1) \<Rightarrow>
               (case must out1 of
                  Some p \<Rightarrow> (self1, Panicked p)
                | None \<Rightarrow>
                    (case decode_p0 J (Query_Append self1 ''between'') (args ! 1) of
                       (self2, out2) \<Rightarrow>
                         (case must out2 of
                            Some p \<Rightarrow> (self2, Panicked p)
                          | None \<Rightarrow>
                              (case decode_p0 J (Query_Append self2 ''and'') (args ! 2) of
                                 (self3, out3) \<Rightarrow>
                                   (case must out3 of
                                      Some p \<Rightarrow> (self3, Panicked p)
                                    | None \<Rightarrow> (closeParen_p0 self3, Returned None))))))))"
  by pat_completeness auto
termination
proof (relation "measure
    (case_sum
      (case_sum
        (case_sum (\<lambda>(J, self, input). 3 * tsize input + 2)
                  (\<lambda>(J, self, input). 3 * tsize input + 1))
        (case_sum (\<lambda>(J, self, name, args). 3 * lsize args + 3)
          (case_sum (\<lambda>(J, self, name, args). 3 * lsize args + 3)
                    (\<lambda>(J, self, name, args). 3 * lsize args + 4))))
      (case_sum
        (case_sum (\<lambda>(J, self, name, i, args). 3 * lsize args + 3)
                  (\<lambda>(J, self, name, args). 3 * lsize args + 4))
        (case_sum (\<lambda>(J, self, i, args). 3 * lsize args + 3)
          (case_sum (\<lambda>(J, self, name, args). 3 * lsize args + 3)
                    (\<lambda>(J, self, name, args). 3 * lsize args + 3)))))",
    goal_cases)
  case 1
  show ?case by simp
qed (auto simp: lsize_Cons tsize_pos lsize_nth3 lsize_tl_Unmarshal2 lsize_tl_Unmarshal3)

declare decode_p0.simps [simp del] decodeList_p0.simps [simp del] decodeOpPrefix_p0.simps [simp del]
  decodeOpPostfix_p0.simps [simp del] decodeOpInfix_p0.simps [simp del] decodeOpFunc_p0.simps [simp del]
  decodeOpAny_p0.simps [simp del] decodeOpBetween_p0.simps [simp del]

definition UnmarshalText_p0 :: "'v codec \<Rightarrow> 'v Expr_p0 \<Rightarrow> jtext \<Rightarrow> 'v Expr_p0 \<times> outcome" where
  "UnmarshalText_p0 J self input = decode_p0 J self input"

definition UnmarshalJSON_p0 :: "'v codec \<Rightarrow> 'v Expr_p0 \<Rightarrow> jtext \<Rightarrow> 'v Expr_p0 \<times> outcome" where
  "UnmarshalJSON_p0 J self input = decode_p0 J self input"

text \<open>\<^verbatim>\<open>Expr.QueryAppend\<close> of part_000. \<^verbatim>\<open>sqlb.Query.QueryAppend\<close>, which appends one query
  to another, is not part of the sources: it is the parameter \<open>sub\<close>.\<close>

definition QueryAppend_p0 ::
  "('v Query \<Rightarrow> 'v Query \<Rightarrow> 'v Query) \<Rightarrow> 'v Expr_p0 \<Rightarrow> 'v Query \<Rightarrow> 'v Query" where
  "QueryAppend_p0 sub self out =
     (if Expr_p0_IsBool self \<and> length (Query_Text self) = 0 then Query_Append out ''true''
      else sub (Query.truncate self) out)"

subsection \<open>ord.go: orderings\<close>

record Ord =
  Path :: "string list"
  IsDesc :: bool

record Ords =
  Items :: "Ord list"
  Ords_Type :: "rtype option"

text \<open>
  The regular expression of \<^verbatim>\<open>ordReg\<close>, \<^verbatim>\<open>^((?:\w+\.)*\w+)\s+(?i)(asc|desc)$\<close>. \<^verbatim>\<open>\s\<close> is
  \<^verbatim>\<open>[\t\n\f\r ]\<close>. Case folding is the simple folding of Unicode, for \<^verbatim>\<open>(?i)\<close> as for
  \<^verbatim>\<open>strings.EqualFold\<close>: beside its capital, \<^verbatim>\<open>s\<close> has U+017F and \<^verbatim>\<open>k\<close> has U+212A, here in
  UTF-8. \<open>EqualFold s t\<close> is for a \<open>t\<close> of small ASCII letters.
\<close>

definition isRegexpSpace :: "char \<Rightarrow> bool" where
  "isRegexpSpace c = (c \<in> {CHR 0x09, CHR 0x0A, CHR 0x0C, CHR 0x0D, CHR 0x20})"

definition toUpperASCII :: "char \<Rightarrow> char" where
  "toUpperASCII c =
     (case map_of (zip ''abcdefghijklmnopqrstuvwxyz'' ''ABCDEFGHIJKLMNOPQRSTUVWXYZ'') c of
        Some u \<Rightarrow> u
      | None \<Rightarrow> c)"

fun EqualFold :: "string \<Rightarrow> string \<Rightarrow> bool" where
  "EqualFold [] t = (t = [])"
| "EqualFold (c # cs) [] = False"
| "EqualFold (c # cs) (p # ps) =
     (if c = p \<or> c = toUpperASCII p then EqualFold cs ps
      else if p = CHR ''s'' \<and> c = CHR 0xC5 then
        (case cs of d # ds \<Rightarrow> d = CHR 0xBF \<and> EqualFold ds ps | [] \<Rightarrow> False)
      else if p = CHR ''k'' \<and> c = CHR 0xE2 then
        (case cs of d1 # d2 # ds \<Rightarrow> d1 = CHR 0x84 \<and> d2 = CHR 0xAA \<and> EqualFold ds ps | _ \<Rightarrow> False)
      else False)"

text \<open>\<^verbatim>\<open>ordReg.FindStringSubmatch\<close>: the two groups of the match, if any. The first group
  is followed by white space, so it is the longest prefix of word characters and dots;
  the second group starts with a letter, so the white space is the longest run.\<close>

definition isPathChar :: "char \<Rightarrow> bool" where
  "isPathChar c = (isWordChar c \<or> c = CHR ''.'')"

definition ordReg_FindStringSubmatch :: "string \<Rightarrow> (string \<times> string) option" where
  "ordReg_FindStringSubmatch str =
     (let ident = takeWhile isPathChar str;
          rest = dropWhile isPathChar str;
          spaces = takeWhile isRegexpSpace rest;
          dir = dropWhile isRegexpSpace rest
      in if dottedPath_run False ident \<and> spaces \<noteq> [] \<and> (EqualFold dir ''asc'' \<or> EqualFold dir ''desc'')
         then Some (ident, dir) else None)"

text \<open>\<^verbatim>\<open>Ords.parseOrd\<close>: the error, or the ordering written to \<^verbatim>\<open>ord\<close>.\<close>

definition parseOrd :: "Ords \<Rightarrow> string \<Rightarrow> error + Ord" where
  "parseOrd self str =
     (case ordReg_FindStringSubmatch str of
        None \<Rightarrow> Inl (ErrInvalidOrd str)
      | Some (m1, m2) \<Rightarrow>
          (case structFieldByJsonPath (Ords_Type self) m1 of
             Inl err \<Rightarrow> Inl err
           | Inr (_, path) \<Rightarrow> Inr \<lparr>Path = path, IsDesc = EqualFold m2 ''desc''\<rparr>))"

text \<open>\<^verbatim>\<open>Ords.ParseSlice\<close>: the receiver as the function leaves it, and the error returned.\<close>

fun ParseSlice_loop :: "Ords \<Rightarrow> string list \<Rightarrow> Ords \<times> error option" where
  "ParseSlice_loop self [] = (self, None)"
| "ParseSlice_loop self (val # rest) =
     (case parseOrd self val of
        Inl err \<Rightarrow> (self, Some err)
      | Inr ord \<Rightarrow> ParseSlice_loop (self\<lparr>Items := Items self @ [ord]\<rparr>) rest)"

definition ParseSlice :: "Ords \<Rightarrow> string list \<Rightarrow> Ords \<times> error option" where
  "ParseSlice self vals = ParseSlice_loop (self\<lparr>Items := []\<rparr>) vals"

text \<open>\<^verbatim>\<open>Ord.AppendBytes\<close> and \<^verbatim>\<open>Ords.AppendBytes\<close>; a panic of \<^verbatim>\<open>appendSqlPath\<close> leaves
  them at once.\<close>

definition Ord_AppendBytes :: "Ord \<Rightarrow> string \<Rightarrow> string \<times> pval option" where
  "Ord_AppendBytes self buf =
     (case appendSqlPath buf (Path self) of
        (buf1, Some p) \<Rightarrow> (buf1, Some p)
      | (buf1, None) \<Rightarrow>
          (let buf2 = appendStr buf1 '' '' in
           if IsDesc self then (appendStr buf2 ''desc'', None)
           else (appendStr buf2 ''asc'', None)))"

fun Ords_AppendBytes_loop :: "bool \<Rightarrow> string \<Rightarrow> Ord list \<Rightarrow> string \<times> pval option" where
  "Ords_AppendBytes_loop first buf [] = (buf, None)"
| "Ords_AppendBytes_loop first buf (ord # rest) =
     (case Ord_AppendBytes ord
             (if first then appendStr (appendSpaceIfNeeded buf) ''order by ''
              else appendStr buf '', '') of
        (buf1, Some p) \<Rightarrow> (buf1, Some p)
      | (buf1, None) \<Rightarrow> Ords_AppendBytes_loop False buf1 rest)"

definition Ords_AppendBytes :: "Ords \<Rightarrow> string \<Rightarrow> string \<times> pval option" where
  "Ords_AppendBytes self buf = Ords_AppendBytes_loop True buf (Items self)"

subsection \<open>Values for the examples\<close>

text \<open>Go values as far as the examples need them, and a codec over them: a literal
  outside a cast gives \<^verbatim>\<open>nil\<close>, a \<^verbatim>\<open>bool\<close> or a \<^verbatim>\<open>float64\<close>; a cast accepts a JSON string
  for a \<^verbatim>\<open>string\<close> or a \<^verbatim>\<open>*time.Time\<close> field, and \<^verbatim>\<open>null\<close> for a pointer.\<close>

datatype gval = GNil | GBool bool | GFloat64 string | GString string | GTime string

definition example_codec :: "gval codec" where
  "example_codec =
     \<lparr>Unmarshal_interface =
        (\<lambda>j. case j of
           JNull \<Rightarrow> Inr GNil
         | JBool b \<Rightarrow> Inr (GBool b)
         | JNumber lit \<Rightarrow> Inr (GFloat64 lit)
         | JString s \<Rightarrow> Inr (GString s)
         | _ \<Rightarrow> Inl (ErrJson ''not a scalar'')),
      Unmarshal_typed =
        (\<lambda>t j. case (t, j) of
           (Basic _, JString s) \<Rightarrow> if t = Basic ''string'' then Inr (GString s) else Inl (ErrJson ''type mismatch'')
         | (Ptr _, JString s) \<Rightarrow> if t = Ptr (Basic ''time.Time'') then Inr (GTime s) else Inl (ErrJson ''type mismatch'')
         | (Ptr _, JNull) \<Rightarrow> Inr GNil
         | _ \<Rightarrow> Inl (ErrJson ''type mismatch''))\<rparr>"

section \<open>Properties\<close>

subsection \<open>The field resolver\<close>

lemma Split_dot_nonempty: "Split_dot s \<noteq> []"
  by (induction s) (auto split: list.splits)

lemma sfieldByJsonName_eq: "sfieldByJsonName = fieldByJsonName"
  unfolding sfieldByJsonName_def fieldByJsonName_def sfieldJsonFieldName_def FieldJsonName_def
  by (rule refl)

lemma structFieldByJsonPath_loop_eq:
  "structFieldByJsonPath_loop pathStr rtype sfield path segs =
   fieldByJsonPath_loop pathStr rtype sfield path segs"
  by (induction segs arbitrary: rtype sfield path)
     (simp_all add: sfieldByJsonName_eq sfieldColumnName_def FieldDbName_def Let_def split: sum.splits)

lemma structFieldByJsonPath_eq: "structFieldByJsonPath = fieldByJsonPath"
  by (intro ext) (simp add: structFieldByJsonPath_def fieldByJsonPath_def structFieldByJsonPath_loop_eq)

lemma fieldByJsonPath_loop_sfield:
  "fieldByJsonPath_loop pathStr rtype sfield path segs = Inr (sf, path') \<Longrightarrow>
   segs \<noteq> [] \<or> sfield \<noteq> None \<Longrightarrow> sf \<noteq> None"
  by (induction segs arbitrary: rtype sfield path)
     (auto simp: Let_def split: sum.splits if_splits)

text \<open>A path that resolves gives its leaf field.\<close>

lemma fieldByJsonPath_sfield:
  "fieldByJsonPath rtype pathStr = Inr (sf, path) \<Longrightarrow> \<exists>leaf. sf = Some leaf"
  using fieldByJsonPath_loop_sfield [of pathStr rtype None "[]" "Split_dot pathStr" sf path]
  by (auto simp: fieldByJsonPath_def Split_dot_nonempty split: if_splits)

subsection \<open>Rendering of a field path\<close>

lemma appendSqlPath_loop_tail:
  "\<forall>s \<in> set path. \<not> hasQuote s \<Longrightarrow>
   appendSqlPath_loop buf n (Suc i) path = (buf @ concat (map (\<lambda>s. ''.'' @ quoted s) path), None)"
  by (induction path arbitrary: buf i)
     (simp_all add: appendEnclosed_def appendStr_def quoted_def)

text \<open>
  C7. For a path whose identifiers hold no double quote: a path of length 1 is rendered
  as the identifier between double quotes; a longer path is rendered as the first
  identifier between double quotes and parentheses, then a dot and the quoted identifier
  for every further segment, so that \<open>[a, b, c]\<close> gives \<open>("a")."b"."c"\<close>; an
  ordering appends a space and \<open>asc\<close> or \<open>desc\<close> to that.
\<close>

theorem appendSqlPath_render:
  \<open>(\<not> hasQuote a \<longrightarrow> appendSqlPath buf [a] = (buf @ quoted a, None)) \<and>
   ((\<forall>s \<in> set (a # b # rest). \<not> hasQuote s) \<longrightarrow>
      appendSqlPath buf (a # b # rest) =
        (buf @ ''('' @ quoted a @ '')'' @ concat (map (\<lambda>s. ''.'' @ quoted s) (b # rest)), None) \<and>
      Ord_AppendBytes \<lparr>Path = a # b # rest, IsDesc = d\<rparr> buf =
        (buf @ ''('' @ quoted a @ '')'' @ concat (map (\<lambda>s. ''.'' @ quoted s) (b # rest))
           @ '' '' @ (if d then ''desc'' else ''asc''), None)) \<and>
   appendSqlPath [] [''a'', ''b'', ''c''] = (''("a")."b"."c"'', None)\<close>
proof -
  have one: "\<not> hasQuote a \<Longrightarrow> appendSqlPath buf [a] = (buf @ quoted a, None)"
    by (simp add: appendSqlPath_def appendEnclosed_def quoted_def)
  have many: "appendSqlPath buf (a # b # rest) =
        (buf @ ''('' @ quoted a @ '')'' @ concat (map (\<lambda>s. ''.'' @ quoted s) (b # rest)), None)"
    if "\<forall>s \<in> set (a # b # rest). \<not> hasQuote s"
  proof -
    have "\<forall>s \<in> set (b # rest). \<not> hasQuote s" and "\<not> hasQuote a"
      using that by simp_all
    then show ?thesis
      using appendSqlPath_loop_tail [of "b # rest" _ "length (a # b # rest)" 0]
      by (simp add: appendSqlPath_def appendEnclosed_def quoted_def)
  qed
  have ord: "Ord_AppendBytes \<lparr>Path = a # b # rest, IsDesc = d\<rparr> buf =
        (buf @ ''('' @ quoted a @ '')'' @ concat (map (\<lambda>s. ''.'' @ quoted s) (b # rest))
           @ '' '' @ (if d then ''desc'' else ''asc''), None)"
    if "\<forall>s \<in> set (a # b # rest). \<not> hasQuote s"
    using many [OF that] by (simp add: Ord_AppendBytes_def appendStr_def)
  have abc: \<open>appendSqlPath [] [''a'', ''b'', ''c''] = (''("a")."b"."c"'', None)\<close>
    by (simp add: appendSqlPath_def appendEnclosed_def appendStr_def hasQuote_def)
  show ?thesis using one many ord abc by blast
qed

theorem appendSqlPath_render_witness:
  \<open>\<not> hasQuote ''one'' \<and> appendSqlPath ''order by '' [''one''] = (''order by "one"'', None) \<and>
   \<not> hasQuote ''two'' \<and> \<not> hasQuote ''three'' \<and>
   appendSqlPath [] [''one'', ''two'', ''three''] = (''("one")."two"."three"'', None) \<and>
   Ord_AppendBytes \<lparr>Path = [''one'', ''two'', ''three''], IsDesc = True\<rparr> [] =
     (''("one")."two"."three" desc'', None)\<close>
  using appendSqlPath_render [of "''one''" "''order by ''" "''two''" "[''three'']" True]
    appendSqlPath_render [of "''one''" "[]" "''two''" "[''three'']" True]
  by (simp add: quoted_def hasQuote_def)

subsection \<open>The empty boolean expression\<close>

lemma len_0_iff: "len t = 0 \<longleftrightarrow> t = Invalid []"
  by (cases t) (simp_all add: len_def jsize_pos)

text \<open>
  C5. When \<open>IsBool\<close> is set and the stored text is empty, \<^verbatim>\<open>AppendExpr\<close> on an empty
  builder returns exactly the text \<open>true\<close> and no arguments; on any builder it appends
  \<open>true\<close> to the text and leaves the arguments as they are. The same holds of
  \<^verbatim>\<open>QueryAppend\<close> in part_000 when the compiled text is empty.
\<close>

theorem AppendExpr_empty_bool:
  "(Expr_IsBool self \<and> len (Expr_Text self) = 0 \<longrightarrow>
      AppendExpr J self [] [] = Inr (''true'', []) \<and>
      AppendExpr J self text args = Inr (appendMaybeSpaced text ''true'', args)) \<and>
   (Expr_p0_IsBool selfq \<and> length (Query_Text selfq) = 0 \<longrightarrow>
      QueryAppend_p0 sub selfq \<lparr>Query_Text = [], Query_Args = []\<rparr> =
        \<lparr>Query_Text = ''true'', Query_Args = []\<rparr>)"
  by (simp add: AppendExpr_def Bui_Get_def Bui_Str_def appendMaybeSpaced_def hasDelimSuffix_def
      QueryAppend_p0_def Query_Append_def appendSpaceIfNeeded_def)

theorem AppendExpr_empty_bool_witness:
  "Expr_IsBool \<lparr>Expr_Text = Invalid [], Expr_Type = None, Expr_IsBool = True\<rparr> \<and>
   len (Expr_Text \<lparr>Expr_Text = Invalid [], Expr_Type = None, Expr_IsBool = True\<rparr>) = 0 \<and>
   AppendExpr example_codec \<lparr>Expr_Text = Invalid [], Expr_Type = None, Expr_IsBool = True\<rparr> [] [] =
     Inr (''true'', []) \<and>
   AppendExpr example_codec \<lparr>Expr_Text = Invalid [], Expr_Type = None, Expr_IsBool = True\<rparr>
     ''where'' [GNil] = Inr (''where true'', [GNil]) \<and>
   QueryAppend_p0 (\<lambda>q out. out)
     \<lparr>Query_Text = [], Query_Args = [], Expr_p0_Type = None, Expr_p0_IsBool = True\<rparr>
     \<lparr>Query_Text = [], Query_Args = []\<rparr> = \<lparr>Query_Text = ''true'', Query_Args = ([] :: gval list)\<rparr>"
  using AppendExpr_empty_bool [of "\<lparr>Expr_Text = Invalid [], Expr_Type = None, Expr_IsBool = True\<rparr>"
      example_codec "''where''" "[GNil]"
      "\<lparr>Query_Text = [], Query_Args = [], Expr_p0_Type = None, Expr_p0_IsBool = True\<rparr>" "\<lambda>q out. out"]
  by (simp add: len_def appendMaybeSpaced_def hasDelimSuffix_def hasDelimPrefix_def isWhitespaceChar_def)

subsection \<open>Storing the input\<close>

lemma decode_Invalid: "\<exists>err. decode J self bui (Invalid s) = Inl (PError err)"
  by (simp add: decode.simps decodeList.simps isJsonDict_def isJsonList_def isJsonString_def
      Unmarshal_RawMessages_def decodeString_def Unmarshal_string_def decodeAny_def Unmarshal_any_def)

text \<open>
  C10. \<^verbatim>\<open>UnmarshalText\<close> and \<^verbatim>\<open>UnmarshalJSON\<close> of jel.go return \<^verbatim>\<open>nil\<close> for every input:
  they store the bytes as they are and change nothing else. Bytes that are not valid
  JSON, or valid JSON that is not an expression (here an object), are found only when
  \<^verbatim>\<open>AppendExpr\<close> runs the decoder, which then panics with an error.
\<close>

theorem Unmarshal_stores_unchecked:
  "UnmarshalText self val = (self\<lparr>Expr_Text := val\<rparr>, None) \<and>
   UnmarshalJSON self val = (self\<lparr>Expr_Text := val\<rparr>, None) \<and>
   (s \<noteq> [] \<or> \<not> Expr_IsBool self \<longrightarrow>
      (\<exists>err. AppendExpr J (fst (UnmarshalText self (Invalid s))) text args = Inl (PError err)) \<and>
      (\<exists>err. AppendExpr J (fst (UnmarshalJSON self (Invalid s))) text args = Inl (PError err))) \<and>
   AppendExpr J (fst (UnmarshalJSON self (Valid (JDict kvs)))) text args = Inl (PError ErrUnexpectedDict)"
proof -
  have bad: "\<exists>err. AppendExpr J (self\<lparr>Expr_Text := Invalid s\<rparr>) text args = Inl (PError err)"
    if "s \<noteq> [] \<or> \<not> Expr_IsBool self"
  proof -
    obtain err where "decode J (self\<lparr>Expr_Text := Invalid s\<rparr>) \<lparr>Bui_Text = text, Bui_Args = args\<rparr> (Invalid s)
        = Inl (PError err)"
      using decode_Invalid by blast
    with that show ?thesis
      by (auto simp: AppendExpr_def len_def)
  qed
  have dict: "AppendExpr J (self\<lparr>Expr_Text := Valid (JDict kvs)\<rparr>) text args = Inl (PError ErrUnexpectedDict)"
    by (simp add: AppendExpr_def len_def decode.simps isJsonDict_def firstMeaningfulByte_def)
  show ?thesis
    using bad dict by (simp add: UnmarshalText_def UnmarshalJSON_def)
qed

theorem Unmarshal_stores_unchecked_witness:
  "UnmarshalText \<lparr>Expr_Text = Invalid [], Expr_Type = Some External, Expr_IsBool = False\<rparr> (Invalid ''[1,'') =
     (\<lparr>Expr_Text = Invalid ''[1,'', Expr_Type = Some External, Expr_IsBool = False\<rparr>, None) \<and>
   ''[1,'' \<noteq> [] \<and>
   AppendExpr example_codec
     (fst (UnmarshalText \<lparr>Expr_Text = Invalid [], Expr_Type = Some External, Expr_IsBool = False\<rparr> (Invalid ''[1,'')))
     [] [] = Inl (PError (ErrUnmarshalList ''json''))"
  using Unmarshal_stores_unchecked [of "\<lparr>Expr_Text = Invalid [], Expr_Type = Some External, Expr_IsBool = False\<rparr>"
      "Invalid ''[1,''" "''[1,''" example_codec "[]" "[]" "[]"]
  by (simp add: AppendExpr_def len_def decode.simps decodeList.simps isJsonDict_def isJsonList_def
      firstMeaningfulByte_def TrimSpace_left.simps space_rune_len_def space_runes_def Unmarshal_RawMessages_def)

subsection \<open>Casts\<close>

lemma decodeList_cast:
  "SqlOps name = None \<Longrightarrow>
   decodeList J self bui (Valid (JList (JString name # js))) = decodeCast J self bui name (map Valid js)"
  by (simp add: decodeList.simps Unmarshal_RawMessages_def isJsonString_def firstMeaningfulByte_def
      Unmarshal_string_def)

lemma decodeList_p0_cast:
  "SqlOps name = None \<Longrightarrow>
   decodeList_p0 J selfq (Valid (JList (JString name # js))) = decodeCast_p0 J selfq name (map Valid js)"
  by (simp add: decodeList_p0.simps Unmarshal_RawMessages_def isJsonString_def firstMeaningfulByte_def
      Unmarshal_string_def)

lemma decodeCast_Inr:
  "decodeCast J self bui name (map Valid js) = Inr bui' \<longleftrightarrow>
   (\<exists>leaf path arg v. js = [arg] \<and> fieldByJsonPath (Expr_Type self) name = Inr (Some leaf, path) \<and>
      Unmarshal_typed J (Type leaf) arg = Inr v \<and>
      bui' = \<lparr>Bui_Text = maybeAppendSpace (Bui_Text bui) @ ''$'' @ Itoa (Suc (length (Bui_Args bui))),
              Bui_Args = Bui_Args bui @ [v]\<rparr>)"
proof (cases js)
  case Nil
  then show ?thesis by (simp add: decodeCast_def)
next
  case (Cons arg rest)
  show ?thesis
  proof (cases rest)
    case Nil
    with Cons show ?thesis
      by (cases bui)
         (auto simp: decodeCast_def Unmarshal_into_def Bui_Arg_def Bui_Param_def Let_def
           split: sum.splits option.splits prod.splits)
  next
    case (Cons b rest')
    with \<open>js = arg # rest\<close> show ?thesis by (simp add: decodeCast_def)
  qed
qed

lemma decodeCast_p0_ok:
  "decodeCast_p0 J selfq name (map Valid js) = (selfq', Returned None) \<longleftrightarrow>
   (\<exists>leaf path arg v. js = [arg] \<and> structFieldByJsonPath (Expr_p0_Type selfq) name = Inr (Some leaf, path) \<and>
      Unmarshal_typed J (Type leaf) arg = Inr v \<and>
      selfq' = selfq\<lparr>Query_Text := appendSpaceIfNeeded (Query_Text selfq) @ ''$'' @
                       Itoa (Suc (length (Query_Args selfq))),
                    Query_Args := Query_Args selfq @ [v]\<rparr>)"
proof (cases js)
  case Nil
  then show ?thesis by (simp add: decodeCast_p0_def rec_def)
next
  case (Cons arg rest)
  show ?thesis
  proof (cases rest)
    case Nil
    with Cons show ?thesis
      by (auto simp: decodeCast_p0_def Unmarshal_into_def Query_Append_param_def rec_def
           split: sum.splits option.splits prod.splits)
  next
    case (Cons b rest')
    with \<open>js = arg # rest\<close> show ?thesis by (simp add: decodeCast_p0_def rec_def)
  qed
qed

text \<open>
  C6. A list whose head is a string that is not a key of \<^verbatim>\<open>SqlOps\<close> is a cast. With a
  number of arguments other than one it fails. It succeeds exactly when there is one
  argument, the head resolves as a field path, and the argument decodes into the type of
  the leaf field; then the decoded value is appended as one argument and the text gets
  its placeholder and nothing else: neither the head nor the resolved path is written.
  In part_000 the same holds of the receiver's query.
\<close>

theorem decodeList_cast_one_parameter:
  "SqlOps name = None \<longrightarrow>
     (length js \<noteq> 1 \<longrightarrow>
        decodeList J self bui (Valid (JList (JString name # js))) =
          Inl (PError (ErrCastArity name (length js))) \<and>
        decodeList_p0 J selfq (Valid (JList (JString name # js))) =
          (selfq, Returned (Some (ErrCastArity name (length js))))) \<and>
     (decodeList J self bui (Valid (JList (JString name # js))) = Inr bui' \<longleftrightarrow>
        (\<exists>leaf path arg v. js = [arg] \<and>
           fieldByJsonPath (Expr_Type self) name = Inr (Some leaf, path) \<and>
           Unmarshal_typed J (Type leaf) arg = Inr v \<and>
           bui' = \<lparr>Bui_Text = maybeAppendSpace (Bui_Text bui) @ ''$'' @ Itoa (Suc (length (Bui_Args bui))),
                   Bui_Args = Bui_Args bui @ [v]\<rparr>)) \<and>
     (decodeList_p0 J selfq (Valid (JList (JString name # js))) = (selfq', Returned None) \<longleftrightarrow>
        (\<exists>leaf path arg v. js = [arg] \<and>
           structFieldByJsonPath (Expr_p0_Type selfq) name = Inr (Some leaf, path) \<and>
           Unmarshal_typed J (Type leaf) arg = Inr v \<and>
           selfq' = selfq\<lparr>Query_Text := appendSpaceIfNeeded (Query_Text selfq) @ ''$'' @
                            Itoa (Suc (length (Query_Args selfq))),
                         Query_Args := Query_Args selfq @ [v]\<rparr>))"
proof (intro impI conjI)
  assume op: "SqlOps name = None"
  show "decodeList J self bui (Valid (JList (JString name # js))) =
          Inl (PError (ErrCastArity name (length js)))" if "length js \<noteq> 1"
    using that by (simp add: decodeList_cast [OF op] decodeCast_def)
  show "decodeList_p0 J selfq (Valid (JList (JString name # js))) =
          (selfq, Returned (Some (ErrCastArity name (length js))))" if "length js \<noteq> 1"
    using that by (simp add: decodeList_p0_cast [OF op] decodeCast_p0_def rec_def)
  show "decodeList J self bui (Valid (JList (JString name # js))) = Inr bui' \<longleftrightarrow>
        (\<exists>leaf path arg v. js = [arg] \<and>
           fieldByJsonPath (Expr_Type self) name = Inr (Some leaf, path) \<and>
           Unmarshal_typed J (Type leaf) arg = Inr v \<and>
           bui' = \<lparr>Bui_Text = maybeAppendSpace (Bui_Text bui) @ ''$'' @ Itoa (Suc (length (Bui_Args bui))),
                   Bui_Args = Bui_Args bui @ [v]\<rparr>)"
    unfolding decodeList_cast [OF op] by (rule decodeCast_Inr)
  show "decodeList_p0 J selfq (Valid (JList (JString name # js))) = (selfq', Returned None) \<longleftrightarrow>
        (\<exists>leaf path arg v. js = [arg] \<and>
           structFieldByJsonPath (Expr_p0_Type selfq) name = Inr (Some leaf, path) \<and>
           Unmarshal_typed J (Type leaf) arg = Inr v \<and>
           selfq' = selfq\<lparr>Query_Text := appendSpaceIfNeeded (Query_Text selfq) @ ''$'' @
                            Itoa (Suc (length (Query_Args selfq))),
                         Query_Args := Query_Args selfq @ [v]\<rparr>)"
    unfolding decodeList_p0_cast [OF op] by (rule decodeCast_p0_ok)
qed

theorem decodeList_cast_one_parameter_witness:
  "SqlOps ''externalName'' = None \<and>
   length [JString ''a'', JString ''b''] \<noteq> 1 \<and>
   decodeList example_codec \<lparr>Expr_Text = Invalid [], Expr_Type = Some External, Expr_IsBool = False\<rparr>
     \<lparr>Bui_Text = ''(col ='', Bui_Args = [GBool False]\<rparr>
     (Valid (JList [JString ''externalName'', JString ''a'', JString ''b''])) =
       Inl (PError (ErrCastArity ''externalName'' 2)) \<and>
   decodeList example_codec \<lparr>Expr_Text = Invalid [], Expr_Type = Some External, Expr_IsBool = False\<rparr>
     \<lparr>Bui_Text = ''(col ='', Bui_Args = [GBool False]\<rparr>
     (Valid (JList [JString ''externalName'', JString ''literal string''])) =
       Inr \<lparr>Bui_Text = ''(col = $2'', Bui_Args = [GBool False, GString ''literal string'']\<rparr>"
proof -
  have op: "SqlOps ''externalName'' = None"
    by (simp add: SqlOps_def)
  have res: "fieldByJsonPath (Some External) ''externalName'' =
      Inr (Some (StructField ''externalName'' ''external_name'' False (Basic ''string'')), [''external_name''])"
    by (simp add: fieldByJsonPath_def dottedPathReg_MatchString_def isWordChar_def External_def
        fieldByJsonName_def FieldJsonName_def FieldDbName_def Let_def)
  have dec: "Unmarshal_typed example_codec (Basic ''string'') (JString ''literal string'') =
      Inr (GString ''literal string'')"
    by (simp add: example_codec_def)
  note inst = decodeList_cast_one_parameter [where name = "''externalName''" and J = example_codec
      and self = "\<lparr>Expr_Text = Invalid [], Expr_Type = Some External, Expr_IsBool = False\<rparr>"
      and bui = "\<lparr>Bui_Text = ''(col ='', Bui_Args = [GBool False]\<rparr>"
      and selfq = "\<lparr>Query_Text = [], Query_Args = [], Expr_p0_Type = None, Expr_p0_IsBool = False\<rparr>"
      and selfq' = "\<lparr>Query_Text = [], Query_Args = [], Expr_p0_Type = None, Expr_p0_IsBool = False\<rparr>"
      and bui' = "\<lparr>Bui_Text = ''(col = $2'', Bui_Args = [GBool False, GString ''literal string'']\<rparr>"]
  have it: "Itoa (Suc (Suc 0)) = ''2''"
    by (simp add: Itoa.simps)
  have two: "decodeList example_codec \<lparr>Expr_Text = Invalid [], Expr_Type = Some External, Expr_IsBool = False\<rparr>
     \<lparr>Bui_Text = ''(col ='', Bui_Args = [GBool False]\<rparr>
     (Valid (JList [JString ''externalName'', JString ''a'', JString ''b''])) =
       Inl (PError (ErrCastArity ''externalName'' 2))"
    using inst [where js = "[JString ''a'', JString ''b'']"] op by simp
  have one: "decodeList example_codec \<lparr>Expr_Text = Invalid [], Expr_Type = Some External, Expr_IsBool = False\<rparr>
     \<lparr>Bui_Text = ''(col ='', Bui_Args = [GBool False]\<rparr>
     (Valid (JList [JString ''externalName'', JString ''literal string''])) =
       Inr \<lparr>Bui_Text = ''(col = $2'', Bui_Args = [GBool False, GString ''literal string'']\<rparr>"
    using inst [where js = "[JString ''literal string'']"]
      op res dec
    by (simp add: maybeAppendSpace_def hasDelimSuffix_def isWhitespaceChar_def it)
  show ?thesis using op two one by simp
qed

subsection \<open>Nesting\<close>

text \<open>The nesting depth of a JSON value, and \<open>n\<close> lists \<^verbatim>\<open>["not", ...]\<close> around a value.\<close>

fun nesting :: "json \<Rightarrow> nat" where
  "nesting (JList js) = Suc (fold max (map nesting js) 0)"
| "nesting (JDict kvs) = Suc (fold max (map (\<lambda>kv. nesting (snd kv)) kvs) 0)"
| "nesting _ = 0"

fun nest_not :: "nat \<Rightarrow> json \<Rightarrow> json" where
  "nest_not 0 j = j"
| "nest_not (Suc n) j = JList [JString ''not'', nest_not n j]"

text \<open>What \<open>n\<close> nested \<^verbatim>\<open>not\<close> around the text \<open>p\<close> look like in SQL, as jel.go and as
  part_000 space it.\<close>

fun not_sql :: "nat \<Rightarrow> string \<Rightarrow> string" where
  "not_sql 0 p = p"
| "not_sql (Suc n) p = ''(not '' @ not_sql n p @ '')''"

fun not_sql_p0 :: "nat \<Rightarrow> string \<Rightarrow> string" where
  "not_sql_p0 0 p = p"
| "not_sql_p0 (Suc n) p = ''( not '' @ not_sql_p0 n p @ '' )''"

lemma nesting_nest_not: "nesting (nest_not n j) = n + nesting j"
  by (induction n) simp_all

lemma SqlOps_not: "SqlOps ''not'' = Some SqlPrefix"
  by (simp add: SqlOps_def)

lemma decode_not:
  "decode J self bui (Valid (JList [JString ''not'', x])) =
     (case decode J self (Bui_Str (openParen bui) ''not'') (Valid x) of
        Inl p \<Rightarrow> Inl p
      | Inr bui1 \<Rightarrow> Inr (closeParen bui1))"
  by (simp add: decode.simps decodeList.simps decodeOpPrefix.simps isJsonDict_def isJsonList_def
      isJsonString_def firstMeaningfulByte_def Unmarshal_RawMessages_def Unmarshal_string_def SqlOps_not)

lemma decode_bool:
  "decode J self bui (Valid (JBool b)) =
     (case Unmarshal_interface J (JBool b) of
        Inl err \<Rightarrow> Inl (PError err)
      | Inr v \<Rightarrow> Inr \<lparr>Bui_Text = maybeAppendSpace (Bui_Text bui) @ ''$'' @ Itoa (Suc (length (Bui_Args bui))),
                      Bui_Args = Bui_Args bui @ [v]\<rparr>)"
  by (cases bui)
     (simp add: decode.simps isJsonDict_def isJsonList_def isJsonString_def firstMeaningfulByte_def
       decodeAny_def Unmarshal_any_def Bui_Arg_def Bui_Param_def Let_def split: sum.splits)

lemma Bui_open_not:
  "Bui_Str (openParen bui) ''not'' = bui\<lparr>Bui_Text := maybeAppendSpace (Bui_Text bui) @ ''(not''\<rparr>"
  by (simp add: Bui_Str_def openParen_def appendMaybeSpaced_def maybeAppendSpace_def hasDelimSuffix_def
      hasDelimPrefix_def isWhitespaceChar_def)

lemma maybeAppendSpace_not: "maybeAppendSpace (t @ ''(not'') = t @ ''(not ''"
  by (simp add: maybeAppendSpace_def hasDelimSuffix_def isWhitespaceChar_def)

lemma closeParen_text: "closeParen bui = bui\<lparr>Bui_Text := Bui_Text bui @ '')''\<rparr>"
  by (simp add: closeParen_def Bui_Str_def appendMaybeSpaced_def hasDelimPrefix_def)

lemma decode_nest_not:
  "Unmarshal_interface J (JBool b) = Inr v \<Longrightarrow>
   decode J self bui (Valid (nest_not n (JBool b))) =
     Inr \<lparr>Bui_Text = maybeAppendSpace (Bui_Text bui) @
                        not_sql n (''$'' @ Itoa (Suc (length (Bui_Args bui)))),
           Bui_Args = Bui_Args bui @ [v]\<rparr>"
proof (induction n arbitrary: bui)
  case 0
  then show ?case by (simp add: decode_bool)
next
  case (Suc n)
  show ?case
    by (simp add: decode_not Bui_open_not Suc.IH [OF Suc.prems] maybeAppendSpace_not closeParen_text)
qed

lemma digit_not_space: "m < 10 \<Longrightarrow> \<not> isWhitespaceChar (''0123456789'' ! m)"
proof -
  assume "m < 10"
  then have "m \<in> {0, 1, 2, 3, 4, 5, 6, 7, 8, 9}" by auto
  then show ?thesis
    by (auto simp: isWhitespaceChar_def)
qed

lemma Itoa_last: "Itoa k \<noteq> [] \<and> \<not> isWhitespaceChar (last (Itoa k))"
  by (subst (1 2) Itoa.simps) (simp add: digit_not_space)

lemma not_sql_p0_last:
  "p \<noteq> [] \<Longrightarrow> \<not> isWhitespaceChar (last p) \<Longrightarrow>
   not_sql_p0 n p \<noteq> [] \<and> \<not> isWhitespaceChar (last (not_sql_p0 n p))"
  by (cases n) (simp_all add: isWhitespaceChar_def)

lemma decode_p0_not:
  "decode_p0 J selfq (Valid (JList [JString ''not'', x])) =
     apsnd rec
       (case decode_p0 J (Query_Append (openParen_p0 selfq) ''not'') (Valid x) of
          (s, out) \<Rightarrow>
            (case must out of
               Some p \<Rightarrow> (s, Panicked p)
             | None \<Rightarrow> (closeParen_p0 s, Returned None)))"
  by (simp add: decode_p0.simps decodeList_p0.simps decodeOpPrefix_p0.simps isJsonDict_def isJsonList_def
      isJsonString_def firstMeaningfulByte_def Unmarshal_RawMessages_def Unmarshal_string_def SqlOps_not)

lemma decode_p0_bool:
  "decode_p0 J selfq (Valid (JBool b)) =
     (case Unmarshal_interface J (JBool b) of
        Inl err \<Rightarrow> (selfq, Returned (Some err))
      | Inr v \<Rightarrow> (selfq\<lparr>Query_Text := appendSpaceIfNeeded (Query_Text selfq) @ ''$'' @
                                Itoa (Suc (length (Query_Args selfq))),
                            Query_Args := Query_Args selfq @ [v]\<rparr>, Returned None))"
  by (simp add: decode_p0.simps isJsonDict_def isJsonList_def isJsonString_def firstMeaningfulByte_def
      decodeAny_p0_def Unmarshal_any_def Query_Append_param_def split: sum.splits)

lemma Query_open_not:
  "Query_Append (openParen_p0 selfq) ''not'' =
     selfq\<lparr>Query_Text := appendSpaceIfNeeded (Query_Text selfq) @ ''( not''\<rparr>"
  by (simp add: Query_Append_def openParen_p0_def appendSpaceIfNeeded_def endsWithWhitspace_def
      isWhitespaceChar_def)

lemma appendSpaceIfNeeded_not: "appendSpaceIfNeeded (t @ ''( not'') = t @ ''( not ''"
  by (simp add: appendSpaceIfNeeded_def endsWithWhitspace_def isWhitespaceChar_def)

lemma closeParen_p0_text:
  "Query_Text s \<noteq> [] \<Longrightarrow> \<not> isWhitespaceChar (last (Query_Text s)) \<Longrightarrow>
   closeParen_p0 s = s\<lparr>Query_Text := Query_Text s @ '' )''\<rparr>"
  by (simp add: closeParen_p0_def Query_Append_def appendSpaceIfNeeded_def endsWithWhitspace_def)

lemma decode_p0_nest_not:
  "Unmarshal_interface J (JBool b) = Inr v \<Longrightarrow>
   decode_p0 J selfq (Valid (nest_not n (JBool b))) =
     (selfq\<lparr>Query_Text := appendSpaceIfNeeded (Query_Text selfq) @
                             not_sql_p0 n (''$'' @ Itoa (Suc (length (Query_Args selfq)))),
            Query_Args := Query_Args selfq @ [v]\<rparr>, Returned None)"
proof (induction n arbitrary: selfq)
  case 0
  then show ?case by (simp add: decode_p0_bool)
next
  case (Suc n)
  let ?p = "''$'' @ Itoa (Suc (length (Query_Args selfq)))"
  let ?t = "appendSpaceIfNeeded (Query_Text selfq)"
  have nl: "not_sql_p0 n ?p \<noteq> [] \<and> \<not> isWhitespaceChar (last (not_sql_p0 n ?p))"
    using Itoa_last [of "Suc (length (Query_Args selfq))"] by (intro not_sql_p0_last) simp_all
  have inner: "decode_p0 J (Query_Append (openParen_p0 selfq) ''not'') (Valid (nest_not n (JBool b))) =
      (selfq\<lparr>Query_Text := ?t @ ''( not '' @ not_sql_p0 n ?p, Query_Args := Query_Args selfq @ [v]\<rparr>,
       Returned None)"
    by (simp add: Query_open_not Suc.IH [OF Suc.prems] appendSpaceIfNeeded_not)
  have close: "closeParen_p0
      (selfq\<lparr>Query_Text := ?t @ ''( not '' @ not_sql_p0 n ?p, Query_Args := Query_Args selfq @ [v]\<rparr>) =
      selfq\<lparr>Query_Text := ?t @ ''( not '' @ not_sql_p0 n ?p @ '' )'', Query_Args := Query_Args selfq @ [v]\<rparr>"
    using nl by (simp add: closeParen_p0_def Query_Append_def appendSpaceIfNeeded_def endsWithWhitspace_def)
  have "decode_p0 J selfq (Valid (nest_not (Suc n) (JBool b))) =
      apsnd rec (closeParen_p0
        (selfq\<lparr>Query_Text := ?t @ ''( not '' @ not_sql_p0 n ?p, Query_Args := Query_Args selfq @ [v]\<rparr>),
        Returned None)"
    unfolding nest_not.simps decode_p0_not inner
    by (simp only: prod.case must_def outcome.case option.case)
  also have "\<dots> = (selfq\<lparr>Query_Text := ?t @ ''( not '' @ not_sql_p0 n ?p @ '' )'',
      Query_Args := Query_Args selfq @ [v]\<rparr>, Returned None)"
    unfolding close by (simp add: rec_def)
  finally show ?case by simp
qed

text \<open>
  C1 (amended). Neither compiler bounds the nesting of its input, and there is no error
  for input that is too deep: for every \<open>n\<close>, a literal inside \<open>n\<close> nested lists
  \<^verbatim>\<open>["not", ...]\<close>, an input of nesting depth \<open>n\<close>, compiles to \<open>n\<close> nested \<^verbatim>\<open>not\<close> and one
  argument, in jel.go as in part_000. The recursion is as deep as the input; it ends
  because every call is on a smaller JSON value.
\<close>

theorem decode_any_depth:
  "nesting (nest_not n (JBool b)) = n \<and>
   (Unmarshal_interface J (JBool b) = Inr v \<longrightarrow>
      AppendExpr J \<lparr>Expr_Text = Valid (nest_not n (JBool b)), Expr_Type = t, Expr_IsBool = ib\<rparr> [] [] =
        Inr (not_sql n ''$1'', [v]) \<and>
      decode J self bui (Valid (nest_not n (JBool b))) =
        Inr \<lparr>Bui_Text = maybeAppendSpace (Bui_Text bui) @
                           not_sql n (''$'' @ Itoa (Suc (length (Bui_Args bui)))),
              Bui_Args = Bui_Args bui @ [v]\<rparr> \<and>
      decode_p0 J selfq (Valid (nest_not n (JBool b))) =
        (selfq\<lparr>Query_Text := appendSpaceIfNeeded (Query_Text selfq) @
                                not_sql_p0 n (''$'' @ Itoa (Suc (length (Query_Args selfq)))),
               Query_Args := Query_Args selfq @ [v]\<rparr>, Returned None))"
proof -
  have it: "Itoa (Suc 0) = ''1''"
    by (simp add: Itoa.simps)
  have top: "AppendExpr J \<lparr>Expr_Text = Valid (nest_not n (JBool b)), Expr_Type = t, Expr_IsBool = ib\<rparr> [] [] =
        Inr (not_sql n ''$1'', [v])" if "Unmarshal_interface J (JBool b) = Inr v"
    using jsize_pos [of "nest_not n (JBool b)"]
    by (simp add: AppendExpr_def Let_def len_def decode_nest_not [OF that] Bui_Get_def
        maybeAppendSpace_def hasDelimSuffix_def it)
  show ?thesis
    using top decode_nest_not [of J b v self bui n] decode_p0_nest_not [of J b v selfq n]
    by (simp add: nesting_nest_not)
qed

theorem decode_any_depth_witness:
  "Unmarshal_interface example_codec (JBool True) = Inr (GBool True) \<and>
   nesting (nest_not 3 (JBool True)) = 3 \<and>
   AppendExpr example_codec
     \<lparr>Expr_Text = Valid (nest_not 3 (JBool True)), Expr_Type = None, Expr_IsBool = False\<rparr> [] [] =
     Inr (''(not (not (not $1)))'', [GBool True]) \<and>
   decode_p0 example_codec
     \<lparr>Query_Text = [], Query_Args = [], Expr_p0_Type = None, Expr_p0_IsBool = False\<rparr>
     (Valid (nest_not 3 (JBool True))) =
     (\<lparr>Query_Text = ''( not ( not ( not $1 ) ) )'', Query_Args = [GBool True],
        Expr_p0_Type = None, Expr_p0_IsBool = False\<rparr>, Returned None)"
proof -
  have c: "Unmarshal_interface example_codec (JBool True) = Inr (GBool True)"
    by (simp add: example_codec_def)
  have it: "Itoa (Suc 0) = ''1''"
    by (simp add: Itoa.simps)
  have three: "(3::nat) = Suc (Suc (Suc 0))"
    by simp
  show ?thesis
    using c decode_any_depth [where n = 3 and b = True and J = example_codec and v = "GBool True"
        and t = None and ib = False
        and self = "\<lparr>Expr_Text = Invalid [], Expr_Type = None, Expr_IsBool = False\<rparr>"
        and bui = "\<lparr>Bui_Text = [], Bui_Args = []\<rparr>"
        and selfq = "\<lparr>Query_Text = [], Query_Args = [], Expr_p0_Type = None, Expr_p0_IsBool = False\<rparr>"]
    by (simp add: three it appendSpaceIfNeeded_def)
qed

text \<open>C1 as stated fails: an input of nesting depth 101 compiles.\<close>

theorem decode_depth_101_counterexample:
  "nesting (nest_not 101 (JBool True)) = 101 \<and>
   AppendExpr example_codec
     \<lparr>Expr_Text = Valid (nest_not 101 (JBool True)), Expr_Type = Some External, Expr_IsBool = False\<rparr>
     [] [] = Inr (not_sql 101 ''$1'', [GBool True]) \<and>
   decode_p0 example_codec
     \<lparr>Query_Text = [], Query_Args = [], Expr_p0_Type = Some External, Expr_p0_IsBool = False\<rparr>
     (Valid (nest_not 101 (JBool True))) =
     (\<lparr>Query_Text = not_sql_p0 101 ''$1'', Query_Args = [GBool True],
        Expr_p0_Type = Some External, Expr_p0_IsBool = False\<rparr>, Returned None)"
proof -
  have c: "Unmarshal_interface example_codec (JBool True) = Inr (GBool True)"
    by (simp add: example_codec_def)
  have it: "Itoa (Suc 0) = ''1''"
    by (simp add: Itoa.simps)
  show ?thesis
    using decode_nest_not [OF c, of "\<lparr>Expr_Text = Valid (nest_not 101 (JBool True)),
          Expr_Type = Some External, Expr_IsBool = False\<rparr>" "\<lparr>Bui_Text = [], Bui_Args = []\<rparr>" 101]
      decode_p0_nest_not [OF c, of "\<lparr>Query_Text = [], Query_Args = [], Expr_p0_Type = Some External,
          Expr_p0_IsBool = False\<rparr>" 101]
    using jsize_pos [of "nest_not 101 (JBool True)"]
    by (simp add: nesting_nest_not AppendExpr_def Let_def len_def Bui_Get_def maybeAppendSpace_def
        hasDelimSuffix_def appendSpaceIfNeeded_def it)
qed

end
